theory Spec2Isabelle
  imports Main "HOL-Library.Word" "HOL-Library.Signed_Division"
begin

section \<open>Go values used by package config\<close>

text \<open>
  A Go \<open>[]byte\<close> is a list of 8-bit characters. A Go \<open>error\<close> is either built by
  \<open>fmt.Errorf\<close> inside package config, or handed back by one of the libraries it calls.
  A Go function returning \<open>(T, error)\<close> returns a pair of a possibly-nil value and a
  possibly-nil error.
\<close>

type_synonym bytes = "char list"

datatype error = Errorf string | LibError string

type_synonym 'a go_result = "'a option \<times> error option"

text \<open>
  A Go function either returns, or panics with a run-time error, or the runtime stops the
  process because memory is exhausted (\<open>fatal error: runtime: out of memory\<close>). The
  run-time errors met in package config, with the message Go prints after
  \<open>runtime error:\<close> for each:
  \<^item> \<open>nil_pointer_dereference\<close>: \<open>invalid memory address or nil pointer dereference\<close>;
  \<^item> \<open>makeslice_len_out_of_range\<close>: \<open>makeslice: len out of range\<close>;
  \<^item> \<open>growslice_len_out_of_range\<close>: \<open>growslice: len out of range\<close>;
  \<^item> \<open>index_out_of_range i n\<close>: \<open>index out of range [i] with length n\<close>.
\<close>

datatype runtime_error =
  nil_pointer_dereference | makeslice_len_out_of_range | growslice_len_out_of_range
  | index_out_of_range nat nat

datatype 'a outcome = Returns 'a | Panics runtime_error | OutOfMemory

text \<open>The fields of \<open>x509.Certificate\<close> that config.go reads.\<close>

record x509_Certificate =
  Raw :: bytes
  IsCA :: bool
  Subject :: string

text \<open>\<open>tls.Certificate\<close>: the DER chain and the private key that belongs to its leaf.\<close>

record tls_Certificate =
  Certificate :: "bytes list"
  PrivateKey :: bytes

datatype ClientAuthType =
  NoClientCert | RequestClientCert | RequireAnyClientCert
  | VerifyClientCertIfGiven | RequireAndVerifyClientCert

text \<open>\<open>x509.CertPool\<close>: the certificates held by the pool.\<close>

type_synonym CertPool = "x509_Certificate list"

text \<open>The fields of \<open>tls.Config\<close> that config.go sets; \<open>tls_Config_zero\<close> is Go's zero value.\<close>

record tls_Config =
  Certificates :: "tls_Certificate list"
  ClientAuth :: ClientAuthType
  RootCAs :: "CertPool option"
  InsecureSkipVerify :: bool

definition tls_Config_zero :: tls_Config where
  "tls_Config_zero =
     \<lparr>Certificates = [], ClientAuth = NoClientCert, RootCAs = None, InsecureSkipVerify = False\<rparr>"

text \<open>
  The parts of certmagic that config.go touches. An \<open>ACMEManager\<close> value is the template
  handed to \<open>certmagic.NewACMEManager\<close>, and the issuer is what that call builds from it.
  The cache is built from its options, whose \<open>GetConfigForCert\<close> callback answers with the
  address of the package-level \<open>certmagic.Default\<close>. \<open>certmagic.New\<close> attaches the cache to
  a copy of the configuration, and \<open>Config.TLSConfig\<close> derives the \<open>tls.Config\<close> that
  serves the configuration's certificates.
\<close>

definition LetsEncryptStagingCA :: string where
  "LetsEncryptStagingCA = ''https://acme-staging-v02.api.letsencrypt.org/directory''"

definition LetsEncryptProductionCA :: string where
  "LetsEncryptProductionCA = ''https://acme-v02.api.letsencrypt.org/directory''"

record ACMEManager =
  CA :: string
  Email :: string
  Agreed :: bool

datatype Issuer = NewACMEManager ACMEManager

datatype config_ref = certmagic_Default_ref

record CacheOptions =
  GetConfigForCert :: config_ref

datatype Cache = NewCache CacheOptions

record certmagic_Config =
  Issuer :: "Issuer option"
  certCache :: "Cache option"

definition certmagic_New :: "Cache \<Rightarrow> certmagic_Config \<Rightarrow> certmagic_Config" where
  "certmagic_New cache cfg = cfg\<lparr>certCache := Some cache\<rparr>"

datatype managed_tls_Config = Config_TLSConfig certmagic_Config

section \<open>The outside world\<close>

text \<open>
  Every call that leaves package config is recorded, in order, in the trace of the world.
  The file system maps a path to the contents of the file there.
\<close>

datatype call =
  Call_tls_Dial string string tls_Config
  | Call_conn_Close
  | Call_ReadFile string
  | Call_WriteFile string bytes nat
  | Call_rand_Int nat
  | Call_ManageSync certmagic_Config "string list"

record world =
  files :: "string \<rightharpoonup> bytes"
  trace :: "call list"

definition log_call :: "call \<Rightarrow> world \<Rightarrow> world" where
  "log_call c w = w\<lparr>trace := trace w @ [c]\<rparr>"

text \<open>
  The libraries and the operating system are parameters. Each answer may depend on the
  world at the moment of the call, so a second attempt could be answered differently from
  the first.
  \<^item> \<open>tls_Dial\<close>: \<open>tls.Dial(network, addr, conf)\<close>, giving the error of the dial or the
    \<open>PeerCertificates\<close> of the connection's state, in the order the peer presented them.
  \<^item> \<open>os_read_error\<close>: the error with which the operating system refuses to read a file.
  \<^item> \<open>os_write_error\<close>: the error with which the operating system fails a write to a
    file, together with what is at the path afterwards.
  \<^item> \<open>tls_X509KeyPair\<close>: \<open>tls.X509KeyPair(certPEMBlock, keyPEMBlock)\<close>.
  \<^item> \<open>x509_certs_of_PEM\<close>: the certificates that crypto/x509 decodes from PEM data.
  \<^item> \<open>rand_Int\<close>: \<open>rand.Int(rand.Reader, max)\<close>, giving the error of the random source
    or the number drawn.
  \<^item> \<open>runtime_out_of_memory\<close>: whether the memory left does not suffice for a slice of
    that many bytes.
  \<^item> \<open>runtime_growslice_out_of_range\<close>: whether the capacity that the runtime chooses
    for a slice grown to that many bytes is above its allocation limit.
  \<^item> \<open>certmagic_Default\<close>: the value of the package-level \<open>certmagic.Default\<close>.
  \<^item> \<open>certmagic_ManageSync\<close>: \<open>(*Config).ManageSync(domains)\<close>, which obtains the
    certificates of the domains from the configuration's issuer; \<open>None\<close> is a nil error.
\<close>

record env =
  tls_Dial :: "world \<Rightarrow> string \<Rightarrow> string \<Rightarrow> tls_Config \<Rightarrow> error + x509_Certificate list"
  os_read_error :: "world \<Rightarrow> string \<Rightarrow> error option"
  os_write_error :: "world \<Rightarrow> string \<Rightarrow> (error \<times> bytes option) option"
  tls_X509KeyPair :: "bytes \<Rightarrow> bytes \<Rightarrow> error + tls_Certificate"
  x509_certs_of_PEM :: "bytes \<Rightarrow> x509_Certificate list"
  rand_Int :: "world \<Rightarrow> nat \<Rightarrow> error + nat"
  runtime_out_of_memory :: "world \<Rightarrow> nat \<Rightarrow> bool"
  runtime_growslice_out_of_range :: "world \<Rightarrow> nat \<Rightarrow> bool"
  certmagic_Default :: certmagic_Config
  certmagic_ManageSync :: "world \<Rightarrow> certmagic_Config \<Rightarrow> string list \<Rightarrow> error option"

section \<open>Base64 and PEM\<close>

text \<open>
  \<open>encoding/base64\<close> and \<open>encoding/pem\<close> of Go's standard library, written after their
  documented behaviour. The standard encoding turns each group of three bytes into four
  characters of \<open>encodeStd\<close> and pads a last group of one or two bytes with \<open>=\<close>;
  \<open>decodeMap\<close> is the position of a character in the alphabet.
\<close>

definition encodeStd :: string where
  "encodeStd = ''ABCDEFGHIJKLMNOPQRSTUVWXYZabcdefghijklmnopqrstuvwxyz0123456789+/''"

definition padChar :: char where
  "padChar = CHR ''=''"

fun StdEncoding_Encode :: "bytes \<Rightarrow> string" where
  "StdEncoding_Encode [] = []"
| "StdEncoding_Encode [s0] =
     (let val = of_char s0 * 65536
      in [encodeStd ! (val div 262144 mod 64), encodeStd ! (val div 4096 mod 64),
          padChar, padChar])"
| "StdEncoding_Encode [s0, s1] =
     (let val = of_char s0 * 65536 + of_char s1 * 256
      in [encodeStd ! (val div 262144 mod 64), encodeStd ! (val div 4096 mod 64),
          encodeStd ! (val div 64 mod 64), padChar])"
| "StdEncoding_Encode (s0 # s1 # s2 # src) =
     (let val = of_char s0 * 65536 + of_char s1 * 256 + of_char s2
      in [encodeStd ! (val div 262144 mod 64), encodeStd ! (val div 4096 mod 64),
          encodeStd ! (val div 64 mod 64), encodeStd ! (val mod 64)]
         @ StdEncoding_Encode src)"

fun decodeMap :: "char list \<Rightarrow> char \<Rightarrow> nat option" where
  "decodeMap [] c = None"
| "decodeMap (x # xs) c = (if x = c then Some 0 else map_option Suc (decodeMap xs c))"

fun StdEncoding_Decode :: "string \<Rightarrow> bytes option" where
  "StdEncoding_Decode [] = Some []"
| "StdEncoding_Decode (c0 # c1 # c2 # c3 # src) =
     (case (decodeMap encodeStd c0, decodeMap encodeStd c1) of
        (Some d0, Some d1) \<Rightarrow>
          if src = [] \<and> c2 = padChar \<and> c3 = padChar
          then Some [char_of ((d0 * 262144 + d1 * 4096) div 65536)]
          else (case decodeMap encodeStd c2 of
                  Some d2 \<Rightarrow>
                    if src = [] \<and> c3 = padChar
                    then (let val = d0 * 262144 + d1 * 4096 + d2 * 64
                          in Some [char_of (val div 65536), char_of (val div 256 mod 256)])
                    else (case decodeMap encodeStd c3 of
                            Some d3 \<Rightarrow>
                              (let val = d0 * 262144 + d1 * 4096 + d2 * 64 + d3
                               in map_option
                                    ((@) [char_of (val div 65536), char_of (val div 256 mod 256),
                                          char_of (val mod 256)])
                                    (StdEncoding_Decode src))
                          | None \<Rightarrow> None)
                | None \<Rightarrow> None)
      | _ \<Rightarrow> None)"
| "StdEncoding_Decode _ = None"

text \<open>
  \<open>pem.EncodeToMemory\<close> of a block without headers (config.go sets \<open>Type\<close> and \<open>Bytes\<close>
  only): the \<open>BEGIN\<close> line, the base64 text broken into lines of 64 characters by the
  \<open>lineBreaker\<close>, and the \<open>END\<close> line. \<open>pem_Decode\<close> reads such a file back: the type
  from the first line, and the bytes from the lines before the \<open>END\<close> line of that type.
\<close>

definition pemLineLength :: nat where
  "pemLineLength = 64"

definition nl :: char where
  "nl = CHR 0x0A"

definition pemStart :: string where
  "pemStart = ''-----BEGIN ''"

definition pemEnd :: string where
  "pemEnd = ''-----END ''"

definition pemEndOfLine :: string where
  "pemEndOfLine = ''-----''"

function lineBreaker :: "string \<Rightarrow> string" where
  "lineBreaker b =
     (if length b < pemLineLength then (if b = [] then [] else b @ [nl])
      else take pemLineLength b @ [nl] @ lineBreaker (drop pemLineLength b))"
  by pat_completeness auto
termination
  by (relation "measure length") (auto simp: pemLineLength_def)

record pem_Block =
  Type :: string
  Bytes :: bytes

definition pem_EncodeToMemory :: "pem_Block \<Rightarrow> bytes" where
  "pem_EncodeToMemory b =
     pemStart @ Type b @ pemEndOfLine @ [nl]
     @ lineBreaker (StdEncoding_Encode (Bytes b))
     @ pemEnd @ Type b @ pemEndOfLine @ [nl]"

fun lines_of :: "string \<Rightarrow> string list" where
  "lines_of [] = [[]]"
| "lines_of (c # cs) =
     (if c = nl then [] # lines_of cs
      else (case lines_of cs of l # ls \<Rightarrow> (c # l) # ls | [] \<Rightarrow> [[c]]))"

definition pem_Decode :: "bytes \<Rightarrow> pem_Block option" where
  "pem_Decode data =
     (case lines_of data of
        [] \<Rightarrow> None
      | first # rest \<Rightarrow>
          if length pemStart + length pemEndOfLine \<le> length first
             \<and> take (length pemStart) first = pemStart
             \<and> drop (length first - length pemEndOfLine) first = pemEndOfLine
          then (let typ = take (length first - length pemStart - length pemEndOfLine)
                            (drop (length pemStart) first);
                    endLine = pemEnd @ typ @ pemEndOfLine;
                    body = takeWhile (\<lambda>l. l \<noteq> endLine) rest
                in if length body < length rest
                   then map_option (\<lambda>bs. \<lparr>Type = typ, Bytes = bs\<rparr>)
                          (StdEncoding_Decode (concat body))
                   else None)
          else None)"

section \<open>Library functions called by package config\<close>

text \<open>
  These functions belong to Go's standard library and to grpc, not to the repository; they
  are written after their documented behaviour, over the parameters above.
  \<^item> \<open>ioutil.ReadFile\<close> fails when the operating system refuses the read
    (\<open>os_read_error\<close>) or when no file is at the path, and otherwise returns the contents.
  \<^item> \<open>ioutil.WriteFile\<close> replaces the contents of the file at the path by the data,
    creating the file when there is none, unless the operating system fails the write
    (\<open>os_write_error\<close>).
  \<^item> \<open>tls.LoadX509KeyPair\<close> reads the certificate file, then the key file, and hands
    both contents to \<open>tls.X509KeyPair\<close>, which fails on malformed PEM and on a private
    key that does not match the certificate's public key.
  \<^item> \<open>CertPool.AppendCertsFromPEM\<close> adds every certificate it can decode from the PEM
    data (\<open>x509_certs_of_PEM\<close>) to the pool, skipping one already there, and reports
    whether it decoded any.
  \<^item> \<open>credentials.NewTLS\<close> wraps a \<open>tls.Config\<close> as transport credentials.
\<close>

definition ioutil_ReadFile :: "env \<Rightarrow> string \<Rightarrow> world \<Rightarrow> (error + bytes) \<times> world" where
  "ioutil_ReadFile E filename w =
     (let w1 = log_call (Call_ReadFile filename) w
      in case os_read_error E w filename of
           Some err \<Rightarrow> (Inl err, w1)
         | None \<Rightarrow>
             (case files w filename of
                None \<Rightarrow> (Inl (LibError (''open '' @ filename @ '': no such file or directory'')), w1)
              | Some data \<Rightarrow> (Inr data, w1)))"

definition ioutil_WriteFile ::
  "env \<Rightarrow> string \<Rightarrow> bytes \<Rightarrow> nat \<Rightarrow> world \<Rightarrow> error option \<times> world" where
  "ioutil_WriteFile E filename data perm w =
     (let w1 = log_call (Call_WriteFile filename data perm) w
      in case os_write_error E w filename of
           Some (err, left) \<Rightarrow> (Some err, w1\<lparr>files := (files w1)(filename := left)\<rparr>)
         | None \<Rightarrow> (None, w1\<lparr>files := (files w1)(filename \<mapsto> data)\<rparr>))"

definition tls_LoadX509KeyPair ::
  "env \<Rightarrow> string \<Rightarrow> string \<Rightarrow> world \<Rightarrow> (error + tls_Certificate) \<times> world" where
  "tls_LoadX509KeyPair E certFile keyFile w =
     (case ioutil_ReadFile E certFile w of
        (Inl err, w1) \<Rightarrow> (Inl err, w1)
      | (Inr certPEMBlock, w1) \<Rightarrow>
          (case ioutil_ReadFile E keyFile w1 of
             (Inl err, w2) \<Rightarrow> (Inl err, w2)
           | (Inr keyPEMBlock, w2) \<Rightarrow> (tls_X509KeyPair E certPEMBlock keyPEMBlock, w2)))"

definition x509_NewCertPool :: CertPool where
  "x509_NewCertPool = []"

definition CertPool_AddCert :: "x509_Certificate \<Rightarrow> CertPool \<Rightarrow> CertPool" where
  "CertPool_AddCert cert pool = (if cert \<in> set pool then pool else pool @ [cert])"

definition CertPool_AppendCertsFromPEM :: "env \<Rightarrow> CertPool \<Rightarrow> bytes \<Rightarrow> CertPool \<times> bool" where
  "CertPool_AppendCertsFromPEM E pool pemCerts =
     (let certs = x509_certs_of_PEM E pemCerts
      in (fold CertPool_AddCert certs pool, certs \<noteq> []))"

datatype TransportCredentials = tlsCreds tls_Config

definition credentials_NewTLS :: "tls_Config \<Rightarrow> TransportCredentials" where
  "credentials_NewTLS c = tlsCreds c"

section \<open>Static credential loading\<close>

definition LoadTLSKeypair ::
  "env \<Rightarrow> string \<Rightarrow> string \<Rightarrow> world \<Rightarrow> TransportCredentials go_result \<times> world" where
  "LoadTLSKeypair E certPath keyPath w =
     (case tls_LoadX509KeyPair E certPath keyPath w of
        (Inl err, w1) \<Rightarrow> ((None, Some err), w1)
      | (Inr serverCert, w1) \<Rightarrow>
          (let config = tls_Config_zero\<lparr>Certificates := [serverCert], ClientAuth := NoClientCert\<rparr>
           in ((Some (credentials_NewTLS config), None), w1)))"

definition ClientLoadCA ::
  "env \<Rightarrow> string \<Rightarrow> world \<Rightarrow> TransportCredentials go_result \<times> world" where
  "ClientLoadCA E cacertPath w =
     (case ioutil_ReadFile E cacertPath w of
        (Inl err, w1) \<Rightarrow> ((None, Some err), w1)
      | (Inr pemServerCA, w1) \<Rightarrow>
          (case CertPool_AppendCertsFromPEM E x509_NewCertPool pemServerCA of
             (certPool, ok) \<Rightarrow>
               if \<not> ok then ((None, Some (Errorf ''failed to add server CA's certificate'')), w1)
               else (let config = tls_Config_zero\<lparr>RootCAs := Some certPool\<rparr>
                     in ((Some (credentials_NewTLS config), None), w1))))"

section \<open>Remote trust extraction\<close>

text \<open>
  The \<open>for _, cert := range certs\<close> loop of \<open>getCACert\<close>, returning at the first CA.
  The deferred \<open>conn.Close()\<close> runs when \<open>getCACert\<close> returns after a successful dial;
  no other call leaves the package in between.
\<close>

fun range_certs :: "x509_Certificate list \<Rightarrow> x509_Certificate option" where
  "range_certs [] = None"
| "range_certs (cert # certs) = (if IsCA cert then Some cert else range_certs certs)"

definition getCACert :: "env \<Rightarrow> string \<Rightarrow> world \<Rightarrow> x509_Certificate go_result \<times> world" where
  "getCACert E domain w =
     (let conf = tls_Config_zero\<lparr>InsecureSkipVerify := True\<rparr>;
          addr = domain @ '':443'';
          w1 = log_call (Call_tls_Dial ''tcp'' addr conf) w
      in case tls_Dial E w ''tcp'' addr conf of
           Inl err \<Rightarrow> ((None, Some err), w1)
         | Inr certs \<Rightarrow>
             (let w2 = log_call Call_conn_Close w1
              in case range_certs certs of
                   Some cert \<Rightarrow> ((Some cert, None), w2)
                 | None \<Rightarrow>
                     ((None, Some (Errorf ''unable to get CA from server: cert does not exist'')),
                      w2)))"

text \<open>
  \<open>DownloadCACert\<close>; the permission \<open>0644\<close> is 420. Reading \<open>cert.Raw\<close> through a nil
  pointer panics.
\<close>

definition DownloadCACert ::
  "env \<Rightarrow> string \<Rightarrow> string \<Rightarrow> world \<Rightarrow> error option outcome \<times> world" where
  "DownloadCACert E outputPath domain w =
     (case getCACert E domain w of
        ((cert, Some err), w1) \<Rightarrow> (Returns (Some err), w1)
      | ((None, None), w1) \<Rightarrow>
          (Panics nil_pointer_dereference, w1)
      | ((Some cert, None), w1) \<Rightarrow>
          (let publicKeyBlock = \<lparr>Type = ''CERTIFICATE'', Bytes = Raw cert\<rparr>;
               publicKeyPem = pem_EncodeToMemory publicKeyBlock
           in case ioutil_WriteFile E outputPath publicKeyPem 420 w1 of
                (err, w2) \<Rightarrow> (Returns err, w2)))"

section \<open>Automated certificate management\<close>

definition GenerateTLSConfig ::
  "env \<Rightarrow> bool \<Rightarrow> string \<Rightarrow> string list \<Rightarrow> world \<Rightarrow> managed_tls_Config go_result \<times> world" where
  "GenerateTLSConfig E staging email domains w =
     (let cache = NewCache \<lparr>GetConfigForCert = certmagic_Default_ref\<rparr>;
          acmeMgr = \<lparr>CA = [], Email = email, Agreed = True\<rparr>;
          cfg = certmagic_Default E;
          acmeMgr = (if staging then acmeMgr\<lparr>CA := LetsEncryptStagingCA\<rparr>
                     else acmeMgr\<lparr>CA := LetsEncryptProductionCA\<rparr>);
          myAcme = NewACMEManager acmeMgr;
          magic = certmagic_New cache cfg;
          magic = magic\<lparr>Issuer := Some myAcme\<rparr>;
          w1 = log_call (Call_ManageSync magic domains) w
      in case certmagic_ManageSync E w magic domains of
           Some err \<Rightarrow> ((None, Some err), w1)
         | None \<Rightarrow> ((Some (Config_TLSConfig magic), None), w1))"

section \<open>Random byte slices\<close>








section \<open>Timestamp conversion\<close>

text \<open>
  Go's \<open>int64\<close> is a 64-bit word read as two's complement; its division truncates towards
  zero. \<open>time.Unix\<close>, \<open>Time.UTC\<close> and \<open>timestamppb.New\<close> belong to the libraries: a
  \<open>Time\<close> is held as its Unix seconds and its nanoseconds within the second, \<open>UTC\<close>
  changes the location only, and \<open>timestamppb.New\<close> copies both numbers into a fresh
  \<open>Timestamp\<close>. A \<open>*timestamppb.Timestamp\<close> is an option, \<open>None\<close> for nil.
\<close>

definition int64_div :: "64 word \<Rightarrow> 64 word \<Rightarrow> 64 word" where
  "int64_div a b = word_of_int (sint a sdiv sint b)"

record Time =
  unix_sec :: "64 word"
  nsec_of :: "32 word"

definition unixTime :: "64 word \<Rightarrow> 32 word \<Rightarrow> Time" where
  "unixTime sec nsec = \<lparr>unix_sec = sec, nsec_of = nsec\<rparr>"

definition time_Unix :: "64 word \<Rightarrow> 64 word \<Rightarrow> Time" where
  "time_Unix sec nsec =
     (if nsec <s 0 \<or> 1000000000 \<le>s nsec then
        (let n = int64_div nsec 1000000000;
             sec1 = sec + n;
             nsec1 = nsec - n * 1000000000
         in if nsec1 <s 0 then unixTime (sec1 - 1) (ucast (nsec1 + 1000000000))
            else unixTime sec1 (ucast nsec1))
      else unixTime sec (ucast nsec))"

definition time_UTC :: "Time \<Rightarrow> Time" where
  "time_UTC t = t"

record Timestamp =
  Seconds :: "64 word"
  Nanos :: "32 word"

definition timestamppb_New :: "Time \<Rightarrow> Timestamp option" where
  "timestamppb_New t = Some \<lparr>Seconds = unix_sec t, Nanos = nsec_of t\<rparr>"

definition Timestamp_GetNanos :: "Timestamp option \<Rightarrow> 32 word" where
  "Timestamp_GetNanos x = (case x of Some ts \<Rightarrow> Nanos ts | None \<Rightarrow> 0)"

definition UnixToUtcTS :: "64 word \<Rightarrow> Timestamp option" where
  "UnixToUtcTS in' = (let t = time_UTC (time_Unix 0 in') in timestamppb_New t)"

definition TsToUnixUTC :: "Timestamp option \<Rightarrow> 64 word" where
  "TsToUnixUTC in' = scast (Timestamp_GetNanos in')"

section \<open>Inputs for the worked examples\<close>

definition world0 :: world where
  "world0 = \<lparr>files = Map.empty, trace = []\<rparr>"

definition leaf_cert :: x509_Certificate where
  "leaf_cert = \<lparr>Raw = ''leaf-der'', IsCA = False, Subject = ''CN=example.test''\<rparr>"

definition root_cert :: x509_Certificate where
  "root_cert = \<lparr>Raw = ''root-der'', IsCA = True, Subject = ''CN=Test Root''\<rparr>"

definition other_root_cert :: x509_Certificate where
  "other_root_cert = \<lparr>Raw = ''other-der'', IsCA = True, Subject = ''CN=Other Root''\<rparr>"

definition server_pair :: tls_Certificate where
  "server_pair = \<lparr>Certificate = [''leaf-der''], PrivateKey = ''leaf-key''\<rparr>"

text \<open>
  A network on which \<open>example.test\<close> presents a leaf and two CA certificates,
  \<open>plain.test\<close> presents only a leaf, and every other host is unreachable. The
  operating system refuses to read \<open>/etc/locked.pem\<close>; the only matching pair is
  \<open>cert-pem\<close> with \<open>key-pem\<close>, a pair with \<open>other-key-pem\<close> does not match and
  anything else is malformed; \<open>ca-pem\<close> holds the two CA certificates and no
  other data holds any.
\<close>

definition demo_env :: env where
  "demo_env =
     \<lparr>tls_Dial = (\<lambda>w network addr conf.
        if addr = ''example.test:443'' then Inr [leaf_cert, root_cert, other_root_cert]
        else if addr = ''plain.test:443'' then Inr [leaf_cert]
        else Inl (LibError ''dial tcp: no such host'')),
      os_read_error = (\<lambda>w filename.
        if filename = ''/etc/locked.pem'' then Some (LibError ''permission denied'') else None),
      os_write_error = (\<lambda>w filename.
        if filename = ''/etc/locked.pem''
        then Some (LibError ''permission denied'', files w filename) else None),
      tls_X509KeyPair = (\<lambda>certPEMBlock keyPEMBlock.
        if certPEMBlock = ''cert-pem'' \<and> keyPEMBlock = ''key-pem'' then Inr server_pair
        else if certPEMBlock = ''cert-pem'' \<and> keyPEMBlock = ''other-key-pem''
        then Inl (LibError ''tls: private key does not match public key'')
        else Inl (LibError ''tls: failed to find any PEM data in certificate input'')),
      x509_certs_of_PEM = (\<lambda>pemCerts.
        if pemCerts = ''ca-pem'' then [root_cert, other_root_cert] else []),
      rand_Int = (\<lambda>w max. Inr ((7 + 30 * length (trace w)) mod max)),
      runtime_out_of_memory = (\<lambda>w n. 2 ^ 30 < n),
      runtime_growslice_out_of_range = (\<lambda>w n. 2 ^ 47 < n),
      certmagic_Default = \<lparr>Issuer = None, certCache = None\<rparr>,
      certmagic_ManageSync = (\<lambda>w magic domains.
        if domains = [] then Some (LibError ''no domains'') else None)\<rparr>"

definition demo_files :: "string \<rightharpoonup> bytes" where
  "demo_files =
     [''/etc/server.crt'' \<mapsto> ''cert-pem'', ''/etc/server.key'' \<mapsto> ''key-pem'',
      ''/etc/other.key'' \<mapsto> ''other-key-pem'', ''/etc/garbage.pem'' \<mapsto> ''garbage'',
      ''/etc/locked.pem'' \<mapsto> ''cert-pem'', ''/etc/ca.pem'' \<mapsto> ''ca-pem'']"

definition demo_world :: world where
  "demo_world = \<lparr>files = demo_files, trace = []\<rparr>"

section \<open>Properties of static credential loading\<close>

lemma ReadFile_fails:
  "os_read_error E w filename \<noteq> None \<or> files w filename = None \<Longrightarrow>
   \<exists>err. fst (ioutil_ReadFile E filename w) = Inl err"
  by (auto simp: ioutil_ReadFile_def Let_def split: option.splits)

lemma ReadFile_succeeds:
  "os_read_error E w filename = None \<Longrightarrow> files w filename = Some data \<Longrightarrow>
   ioutil_ReadFile E filename w = (Inr data, log_call (Call_ReadFile filename) w)"
  by (simp add: ioutil_ReadFile_def Let_def)

lemma files_log_call: "files (log_call c w) = files w"
  by (simp add: log_call_def)

lemma LoadX509KeyPair_cert_unreadable:
  "fst (ioutil_ReadFile E certFile w) = Inl err \<Longrightarrow>
   fst (tls_LoadX509KeyPair E certFile keyFile w) = Inl err"
  by (cases "ioutil_ReadFile E certFile w") (simp add: tls_LoadX509KeyPair_def)

lemma LoadX509KeyPair_key_unreadable:
  "ioutil_ReadFile E certFile w = (Inr certPEMBlock, w1) \<Longrightarrow>
   fst (ioutil_ReadFile E keyFile w1) = Inl err \<Longrightarrow>
   fst (tls_LoadX509KeyPair E certFile keyFile w) = Inl err"
  by (cases "ioutil_ReadFile E keyFile w1") (simp add: tls_LoadX509KeyPair_def)

lemma LoadX509KeyPair_parsed:
  "ioutil_ReadFile E certFile w = (Inr certPEMBlock, w1) \<Longrightarrow>
   ioutil_ReadFile E keyFile w1 = (Inr keyPEMBlock, w2) \<Longrightarrow>
   tls_LoadX509KeyPair E certFile keyFile w = (tls_X509KeyPair E certPEMBlock keyPEMBlock, w2)"
  by (simp add: tls_LoadX509KeyPair_def)

lemma LoadTLSKeypair_propagates:
  "fst (tls_LoadX509KeyPair E certPath keyPath w) = Inl err \<Longrightarrow>
   fst (LoadTLSKeypair E certPath keyPath w) = (None, Some err)"
  by (cases "tls_LoadX509KeyPair E certPath keyPath w") (simp add: LoadTLSKeypair_def)

text \<open>
  Claim C2. When the certificate file or the key file is missing or unreadable, or when
  the two contents are malformed or do not match (\<open>tls.X509KeyPair\<close> rejects them),
  \<open>LoadTLSKeypair\<close> returns an error and no credentials.
\<close>

theorem LoadTLSKeypair_fails_without_credentials:
  assumes "files w certPath = None \<or> os_read_error E w certPath \<noteq> None
           \<or> files w keyPath = None
           \<or> os_read_error E (log_call (Call_ReadFile certPath) w) keyPath \<noteq> None
           \<or> (\<exists>certPEMBlock keyPEMBlock err.
                 files w certPath = Some certPEMBlock \<and> files w keyPath = Some keyPEMBlock
                 \<and> tls_X509KeyPair E certPEMBlock keyPEMBlock = Inl err)"
  shows "\<exists>err. fst (LoadTLSKeypair E certPath keyPath w) = (None, Some err)"
proof (cases "os_read_error E w certPath \<noteq> None \<or> files w certPath = None")
  case True
  from ReadFile_fails [OF True] obtain err
    where "fst (ioutil_ReadFile E certPath w) = Inl err" by blast
  then show ?thesis
    using LoadX509KeyPair_cert_unreadable LoadTLSKeypair_propagates by blast
next
  case False
  then obtain certPEMBlock where c: "os_read_error E w certPath = None"
    "files w certPath = Some certPEMBlock" by auto
  let ?w1 = "log_call (Call_ReadFile certPath) w"
  have r1: "ioutil_ReadFile E certPath w = (Inr certPEMBlock, ?w1)"
    using c by (rule ReadFile_succeeds)
  show ?thesis
  proof (cases "os_read_error E ?w1 keyPath \<noteq> None \<or> files ?w1 keyPath = None")
    case True
    from ReadFile_fails [OF True] obtain err
      where "fst (ioutil_ReadFile E keyPath ?w1) = Inl err" by blast
    then show ?thesis
      using LoadX509KeyPair_key_unreadable [OF r1] LoadTLSKeypair_propagates by blast
  next
    case False
    then obtain keyPEMBlock where k: "os_read_error E ?w1 keyPath = None"
      "files ?w1 keyPath = Some keyPEMBlock" by auto
    have r2: "ioutil_ReadFile E keyPath ?w1
                = (Inr keyPEMBlock, log_call (Call_ReadFile keyPath) ?w1)"
      using k by (rule ReadFile_succeeds)
    from assms c k obtain err where "tls_X509KeyPair E certPEMBlock keyPEMBlock = Inl err"
      by (auto simp: files_log_call)
    then have "fst (tls_LoadX509KeyPair E certPath keyPath w) = Inl err"
      by (simp add: LoadX509KeyPair_parsed [OF r1 r2])
    then show ?thesis
      using LoadTLSKeypair_propagates by blast
  qed
qed

theorem LoadTLSKeypair_fails_without_credentials_witness:
  "(\<exists>err. fst (LoadTLSKeypair demo_env ''/etc/absent.crt'' ''/etc/server.key'' demo_world)
           = (None, Some err))
   \<and> (\<exists>err. fst (LoadTLSKeypair demo_env ''/etc/locked.pem'' ''/etc/server.key'' demo_world)
           = (None, Some err))
   \<and> (\<exists>err. fst (LoadTLSKeypair demo_env ''/etc/server.crt'' ''/etc/absent.key'' demo_world)
           = (None, Some err))
   \<and> (\<exists>err. fst (LoadTLSKeypair demo_env ''/etc/garbage.pem'' ''/etc/server.key'' demo_world)
           = (None, Some err))
   \<and> (\<exists>err. fst (LoadTLSKeypair demo_env ''/etc/server.crt'' ''/etc/other.key'' demo_world)
           = (None, Some err))"
proof -
  have a: "files demo_world ''/etc/absent.crt'' = None"
    by (simp add: demo_world_def demo_files_def)
  have b: "os_read_error demo_env demo_world ''/etc/locked.pem'' \<noteq> None"
    by (simp add: demo_env_def)
  have c: "files demo_world ''/etc/absent.key'' = None"
    by (simp add: demo_world_def demo_files_def)
  have d: "files demo_world ''/etc/garbage.pem'' = Some ''garbage''
           \<and> files demo_world ''/etc/server.key'' = Some ''key-pem''
           \<and> tls_X509KeyPair demo_env ''garbage'' ''key-pem''
               = Inl (LibError ''tls: failed to find any PEM data in certificate input'')"
    by (simp add: demo_world_def demo_files_def demo_env_def)
  have e: "files demo_world ''/etc/server.crt'' = Some ''cert-pem''
           \<and> files demo_world ''/etc/other.key'' = Some ''other-key-pem''
           \<and> tls_X509KeyPair demo_env ''cert-pem'' ''other-key-pem''
               = Inl (LibError ''tls: private key does not match public key'')"
    by (simp add: demo_world_def demo_files_def demo_env_def)
  show ?thesis
    using LoadTLSKeypair_fails_without_credentials
            [of demo_world "''/etc/absent.crt''" demo_env "''/etc/server.key''"]
          LoadTLSKeypair_fails_without_credentials
            [of demo_world "''/etc/locked.pem''" demo_env "''/etc/server.key''"]
          LoadTLSKeypair_fails_without_credentials
            [of demo_world "''/etc/server.crt''" demo_env "''/etc/absent.key''"]
          LoadTLSKeypair_fails_without_credentials
            [of demo_world "''/etc/garbage.pem''" demo_env "''/etc/server.key''"]
          LoadTLSKeypair_fails_without_credentials
            [of demo_world "''/etc/server.crt''" demo_env "''/etc/other.key''"]
          a b c d e
    by blast
qed

text \<open>
  Claim C4. When both files are readable and \<open>tls.X509KeyPair\<close> accepts their contents,
  \<open>LoadTLSKeypair\<close> returns credentials, and no error, over a configuration whose
  certificate list is exactly the parsed pair and whose client authentication is
  \<open>NoClientCert\<close>.
\<close>

theorem LoadTLSKeypair_one_certificate_no_client_auth:
  assumes "os_read_error E w certPath = None" and "files w certPath = Some certPEMBlock"
    and "os_read_error E (log_call (Call_ReadFile certPath) w) keyPath = None"
    and "files w keyPath = Some keyPEMBlock"
    and "tls_X509KeyPair E certPEMBlock keyPEMBlock = Inr serverCert"
  shows "\<exists>config. fst (LoadTLSKeypair E certPath keyPath w) = (Some (tlsCreds config), None)
           \<and> Certificates config = [serverCert] \<and> ClientAuth config = NoClientCert"
proof -
  let ?w1 = "log_call (Call_ReadFile certPath) w"
  have r1: "ioutil_ReadFile E certPath w = (Inr certPEMBlock, ?w1)"
    using assms(1,2) by (rule ReadFile_succeeds)
  have "files ?w1 keyPath = Some keyPEMBlock"
    using assms(4) by (simp add: files_log_call)
  with assms(3) have r2: "ioutil_ReadFile E keyPath ?w1
      = (Inr keyPEMBlock, log_call (Call_ReadFile keyPath) ?w1)"
    by (rule ReadFile_succeeds)
  show ?thesis
    by (simp add: LoadTLSKeypair_def LoadX509KeyPair_parsed [OF r1 r2] assms(5)
        credentials_NewTLS_def tls_Config_zero_def)
qed

theorem LoadTLSKeypair_one_certificate_no_client_auth_witness:
  "\<exists>config. fst (LoadTLSKeypair demo_env ''/etc/server.crt'' ''/etc/server.key'' demo_world)
             = (Some (tlsCreds config), None)
     \<and> Certificates config = [server_pair] \<and> ClientAuth config = NoClientCert"
proof -
  have a: "os_read_error demo_env demo_world ''/etc/server.crt'' = None"
    by (simp add: demo_env_def)
  have b: "files demo_world ''/etc/server.crt'' = Some ''cert-pem''"
    by (simp add: demo_world_def demo_files_def)
  have c: "os_read_error demo_env (log_call (Call_ReadFile ''/etc/server.crt'') demo_world)
             ''/etc/server.key'' = None"
    by (simp add: demo_env_def)
  have d: "files demo_world ''/etc/server.key'' = Some ''key-pem''"
    by (simp add: demo_world_def demo_files_def)
  have e: "tls_X509KeyPair demo_env ''cert-pem'' ''key-pem'' = Inr server_pair"
    by (simp add: demo_env_def)
  show ?thesis
    by (rule LoadTLSKeypair_one_certificate_no_client_auth [OF a b c d e])
qed

lemma set_fold_AddCert: "set (fold CertPool_AddCert certs pool) = set pool \<union> set certs"
  by (induction certs arbitrary: pool) (auto simp: CertPool_AddCert_def)

lemma AppendCertsFromPEM_fresh_pool:
  "set (fst (CertPool_AppendCertsFromPEM E x509_NewCertPool pemCerts))
     = set (x509_certs_of_PEM E pemCerts)"
  by (simp add: CertPool_AppendCertsFromPEM_def Let_def set_fold_AddCert x509_NewCertPool_def)

lemma AppendCertsFromPEM_ok:
  "snd (CertPool_AppendCertsFromPEM E x509_NewCertPool pemCerts)
     = (fst (CertPool_AppendCertsFromPEM E x509_NewCertPool pemCerts) \<noteq> [])"
proof -
  have "(x509_certs_of_PEM E pemCerts \<noteq> [])
          = (set (fst (CertPool_AppendCertsFromPEM E x509_NewCertPool pemCerts)) \<noteq> {})"
    by (simp add: AppendCertsFromPEM_fresh_pool)
  then show ?thesis
    by (simp add: CertPool_AppendCertsFromPEM_def Let_def)
qed

lemma ClientLoadCA_unreadable:
  "fst (ioutil_ReadFile E cacertPath w) = Inl err \<Longrightarrow>
   fst (ClientLoadCA E cacertPath w) = (None, Some err)"
  by (cases "ioutil_ReadFile E cacertPath w") (simp add: ClientLoadCA_def)

lemma ClientLoadCA_readable:
  "ioutil_ReadFile E cacertPath w = (Inr pemServerCA, w1) \<Longrightarrow>
   fst (ClientLoadCA E cacertPath w) =
     (let certPool = fst (CertPool_AppendCertsFromPEM E x509_NewCertPool pemServerCA)
      in if certPool = [] then (None, Some (Errorf ''failed to add server CA's certificate''))
         else (Some (tlsCreds (tls_Config_zero\<lparr>RootCAs := Some certPool\<rparr>)), None))"
  using AppendCertsFromPEM_ok [of E pemServerCA]
  by (cases "CertPool_AppendCertsFromPEM E x509_NewCertPool pemServerCA")
     (simp add: ClientLoadCA_def Let_def credentials_NewTLS_def)

text \<open>
  Claim C5. \<open>ClientLoadCA\<close> returns an error exactly when the CA bundle cannot be read
  (it is missing or the operating system refuses the read) or appending its contents to a
  fresh pool leaves the pool without any certificate. Otherwise it returns credentials, and
  no error, over a configuration that presents no certificate of its own and whose
  \<open>RootCAs\<close> is the pool after the append, holding the certificates decoded from the file.
\<close>

theorem ClientLoadCA_error_iff:
  "((\<exists>err. snd (fst (ClientLoadCA E cacertPath w)) = Some err) \<longleftrightarrow>
      (os_read_error E w cacertPath \<noteq> None \<or> files w cacertPath = None
       \<or> (\<exists>pemServerCA. files w cacertPath = Some pemServerCA
             \<and> fst (CertPool_AppendCertsFromPEM E x509_NewCertPool pemServerCA) = [])))
   \<and> ((\<exists>err. snd (fst (ClientLoadCA E cacertPath w)) = Some err) \<longrightarrow>
        fst (fst (ClientLoadCA E cacertPath w)) = None)
   \<and> (os_read_error E w cacertPath = None \<longrightarrow> files w cacertPath = Some pemServerCA \<longrightarrow>
        fst (CertPool_AppendCertsFromPEM E x509_NewCertPool pemServerCA) \<noteq> [] \<longrightarrow>
        (\<exists>config certPool.
           fst (ClientLoadCA E cacertPath w) = (Some (tlsCreds config), None)
           \<and> RootCAs config = Some certPool \<and> Certificates config = []
           \<and> certPool = fst (CertPool_AppendCertsFromPEM E x509_NewCertPool pemServerCA)
           \<and> set certPool = set (x509_certs_of_PEM E pemServerCA)))"
proof (cases "os_read_error E w cacertPath \<noteq> None \<or> files w cacertPath = None")
  case True
  from ReadFile_fails [OF True] obtain err
    where "fst (ioutil_ReadFile E cacertPath w) = Inl err" by blast
  then have "fst (ClientLoadCA E cacertPath w) = (None, Some err)"
    by (rule ClientLoadCA_unreadable)
  with True show ?thesis by auto
next
  case False
  then obtain data where d: "os_read_error E w cacertPath = None"
    "files w cacertPath = Some data" by auto
  have "ioutil_ReadFile E cacertPath w = (Inr data, log_call (Call_ReadFile cacertPath) w)"
    using d by (rule ReadFile_succeeds)
  from ClientLoadCA_readable [OF this] d show ?thesis
    by (auto simp: Let_def tls_Config_zero_def AppendCertsFromPEM_fresh_pool)
qed

theorem ClientLoadCA_error_iff_witness:
  "(\<exists>err. snd (fst (ClientLoadCA demo_env ''/etc/absent.pem'' demo_world)) = Some err)
   \<and> (\<exists>err. snd (fst (ClientLoadCA demo_env ''/etc/garbage.pem'' demo_world)) = Some err)
   \<and> fst (fst (ClientLoadCA demo_env ''/etc/garbage.pem'' demo_world)) = None
   \<and> (\<exists>config certPool.
         fst (ClientLoadCA demo_env ''/etc/ca.pem'' demo_world) = (Some (tlsCreds config), None)
         \<and> RootCAs config = Some certPool \<and> Certificates config = []
         \<and> set certPool = {root_cert, other_root_cert})"
proof -
  have a: "files demo_world ''/etc/absent.pem'' = None"
    by (simp add: demo_world_def demo_files_def)
  have b: "files demo_world ''/etc/garbage.pem'' = Some ''garbage''
           \<and> fst (CertPool_AppendCertsFromPEM demo_env x509_NewCertPool ''garbage'') = []"
    by (simp add: demo_world_def demo_files_def demo_env_def CertPool_AppendCertsFromPEM_def
        x509_NewCertPool_def)
  have c: "os_read_error demo_env demo_world ''/etc/ca.pem'' = None
           \<and> files demo_world ''/etc/ca.pem'' = Some ''ca-pem''
           \<and> x509_certs_of_PEM demo_env ''ca-pem'' = [root_cert, other_root_cert]"
    by (simp add: demo_world_def demo_files_def demo_env_def)
  have d: "fst (CertPool_AppendCertsFromPEM demo_env x509_NewCertPool ''ca-pem'') \<noteq> []"
    using AppendCertsFromPEM_fresh_pool [of demo_env "''ca-pem''"] c by auto
  have r1: "\<exists>err. snd (fst (ClientLoadCA demo_env ''/etc/absent.pem'' demo_world)) = Some err"
    using ClientLoadCA_error_iff [of demo_env "''/etc/absent.pem''" demo_world "[]"] a by blast
  have r2: "\<exists>err. snd (fst (ClientLoadCA demo_env ''/etc/garbage.pem'' demo_world)) = Some err"
    using ClientLoadCA_error_iff [of demo_env "''/etc/garbage.pem''" demo_world "[]"] b by blast
  have r3: "fst (fst (ClientLoadCA demo_env ''/etc/garbage.pem'' demo_world)) = None"
    using ClientLoadCA_error_iff [of demo_env "''/etc/garbage.pem''" demo_world "[]"] r2 by blast
  have r4: "\<exists>config certPool.
         fst (ClientLoadCA demo_env ''/etc/ca.pem'' demo_world) = (Some (tlsCreds config), None)
         \<and> RootCAs config = Some certPool \<and> Certificates config = []
         \<and> set certPool = {root_cert, other_root_cert}"
    using ClientLoadCA_error_iff [of demo_env "''/etc/ca.pem''" demo_world "''ca-pem''"] c d
    by auto
  from r1 r2 r3 r4 show ?thesis by blast
qed

section \<open>Properties of base64 and PEM\<close>

lemma distinct_encodeStd: "distinct encodeStd"
  by (simp add: encodeStd_def)

lemma length_encodeStd: "length encodeStd = 64"
  by (simp add: encodeStd_def)

lemma decodeMap_nth: "distinct xs \<Longrightarrow> i < length xs \<Longrightarrow> decodeMap xs (xs ! i) = Some i"
proof (induction xs arbitrary: i)
  case Nil then show ?case by simp
next
  case (Cons x xs)
  show ?case
  proof (cases i)
    case 0 then show ?thesis by simp
  next
    case (Suc j)
    with Cons.prems have "j < length xs" "distinct xs" "x \<noteq> xs ! j" by auto
    with Cons.IH [of j] Suc show ?thesis by simp
  qed
qed

lemma decodeMap_encodeStd: "decodeMap encodeStd (encodeStd ! (k mod 64)) = Some (k mod 64)"
  by (rule decodeMap_nth [OF distinct_encodeStd]) (simp add: length_encodeStd)

lemma encodeStd_not_pad: "encodeStd ! (k mod 64) \<noteq> padChar"
proof -
  have "padChar \<notin> set encodeStd" by (simp add: encodeStd_def padChar_def)
  moreover have "encodeStd ! (k mod 64) \<in> set encodeStd"
    by (rule nth_mem) (simp add: length_encodeStd)
  ultimately show ?thesis by metis
qed

lemma sextets:
  assumes "n < 16777216"
  shows "(n div 262144 mod 64) * 262144 + (n div 4096 mod 64) * 4096
           + (n div 64 mod 64) * 64 + n mod 64 = (n::nat)"
proof -
  define m1 where "m1 = n div 64"
  define m2 where "m2 = m1 div 64"
  define m3 where "m3 = m2 div 64"
  have e2: "n div 4096 = m2" by (simp add: m2_def m1_def div_mult2_eq)
  have e3: "n div 262144 = m3" by (simp add: m3_def m2_def m1_def div_mult2_eq)
  have "m3 < 64" using assms unfolding e3 [symmetric] by simp
  then have s3: "m3 mod 64 = m3" by simp
  have a1: "n = m1 * 64 + n mod 64" by (simp add: m1_def)
  have a2: "m1 = m2 * 64 + m1 mod 64" by (simp add: m2_def)
  have a3: "m2 = m3 * 64 + m2 mod 64" by (simp add: m3_def)
  have "m3 * 262144 + (m2 mod 64) * 4096 + (m1 mod 64) * 64 + n mod 64 = n"
    using a1 a2 a3 by linarith
  then show ?thesis by (simp add: e2 e3 s3 m1_def [symmetric])
qed

lemma bytes3:
  assumes "a < 256" "b < 256" "c < 256"
  shows "(a * 65536 + b * 256 + c) div 65536 = (a::nat)"
    and "(a * 65536 + b * 256 + c) div 256 mod 256 = b"
    and "(a * 65536 + b * 256 + c) mod 256 = c"
proof -
  have "b * 256 + c < 65536" using assms by linarith
  then show "(a * 65536 + b * 256 + c) div 65536 = a" by simp
  have "(a * 65536 + b * 256 + c) div 256 = a * 256 + b" using assms by simp
  then show "(a * 65536 + b * 256 + c) div 256 mod 256 = b" using assms by simp
  have "a * 65536 + b * 256 + c = c + (a * 256 + b) * 256" by simp
  then have "(a * 65536 + b * 256 + c) mod 256 = c mod 256"
    by (simp only: mod_mult_self1)
  then show "(a * 65536 + b * 256 + c) mod 256 = c" using assms by simp
qed


lemma quantum3:
  fixes s0 s1 s2 :: char
  shows "(of_char s0 * 65536 + of_char s1 * 256 + of_char s2) div 262144 mod 64 * 262144
         + (of_char s0 * 65536 + of_char s1 * 256 + of_char s2) div 4096 mod 64 * 4096
         + (of_char s0 * 65536 + of_char s1 * 256 + of_char s2) div 64 mod 64 * 64
         + (of_char s0 * 65536 + of_char s1 * 256 + of_char s2) mod 64
         = of_char s0 * 65536 + of_char s1 * 256 + (of_char s2 :: nat)"
    and "char_of ((of_char s0 * 65536 + of_char s1 * 256 + of_char s2 :: nat) div 65536) = s0"
    and "char_of ((of_char s0 * 65536 + of_char s1 * 256 + of_char s2 :: nat) div 256 mod 256)
         = s1"
    and "char_of ((of_char s0 * 65536 + of_char s1 * 256 + of_char s2 :: nat) mod 256) = s2"
proof -
  let ?val = "of_char s0 * 65536 + of_char s1 * 256 + (of_char s2 :: nat)"
  have l: "of_char s0 < (256::nat)" "of_char s1 < (256::nat)" "of_char s2 < (256::nat)"
    by simp_all
  then have "?val < 16777216" by linarith
  then show "?val div 262144 mod 64 * 262144 + ?val div 4096 mod 64 * 4096
               + ?val div 64 mod 64 * 64 + ?val mod 64 = ?val"
    by (rule sextets)
  show "char_of (?val div 65536) = s0" by (simp only: bytes3 [OF l]) simp
  show "char_of (?val div 256 mod 256) = s1" by (simp only: bytes3 [OF l]) simp
  show "char_of (?val mod 256) = s2" by (simp only: bytes3 [OF l]) simp
qed

lemma quantum2:
  fixes s0 s1 :: char
  shows "(of_char s0 * 65536 + of_char s1 * 256) div 262144 mod 64 * 262144
         + (of_char s0 * 65536 + of_char s1 * 256) div 4096 mod 64 * 4096
         + (of_char s0 * 65536 + of_char s1 * 256) div 64 mod 64 * 64
         = of_char s0 * 65536 + (of_char s1 :: nat) * 256"
    and "char_of ((of_char s0 * 65536 + of_char s1 * 256 :: nat) div 65536) = s0"
    and "char_of ((of_char s0 * 65536 + of_char s1 * 256 :: nat) div 256 mod 256) = s1"
proof -
  let ?val = "of_char s0 * 65536 + (of_char s1 :: nat) * 256"
  have v: "?val = of_char s0 * 65536 + of_char s1 * 256 + of_char (CHR 0x00)" by simp
  have "?val = (of_char s0 * 1024 + of_char s1 * 4) * 64" by simp
  then have "?val mod 64 = 0" by (simp only: mod_mult_self2_is_0)
  moreover have "?val div 262144 mod 64 * 262144 + ?val div 4096 mod 64 * 4096
                   + ?val div 64 mod 64 * 64 + ?val mod 64 = ?val"
    using quantum3(1) [of s0 s1 "CHR 0x00"] unfolding v [symmetric] .
  ultimately show "?val div 262144 mod 64 * 262144 + ?val div 4096 mod 64 * 4096
               + ?val div 64 mod 64 * 64 = ?val"
    by linarith
  show "char_of (?val div 65536) = s0"
    using quantum3(2) [of s0 s1 "CHR 0x00"] unfolding v [symmetric] .
  show "char_of (?val div 256 mod 256) = s1"
    using quantum3(3) [of s0 s1 "CHR 0x00"] unfolding v [symmetric] .
qed

lemma quantum1:
  fixes s0 :: char
  shows "char_of (((of_char s0 * 65536) div 262144 mod 64 * 262144
                   + (of_char s0 * 65536) div 4096 mod 64 * 4096) div (65536::nat)) = s0"
proof -
  let ?val = "of_char s0 * (65536::nat)"
  have v: "?val = of_char s0 * 65536 + of_char (CHR 0x00) * 256" by simp
  have "?val div 64 = (of_char s0 * 16) * 64" by simp
  then have z: "?val div 64 mod 64 = 0" by (simp only: mod_mult_self2_is_0)
  have "?val div 262144 mod 64 * 262144 + ?val div 4096 mod 64 * 4096
          + ?val div 64 mod 64 * 64 = ?val"
    using quantum2(1) [of s0 "CHR 0x00"] unfolding v [symmetric] .
  with z have eq: "?val div 262144 mod 64 * 262144 + ?val div 4096 mod 64 * 4096 = ?val"
    by linarith
  have d: "?val div 65536 = of_char s0" by simp
  show ?thesis unfolding eq d by simp
qed

lemma Decode_padded2:
  "StdEncoding_Decode [encodeStd ! (a mod 64), encodeStd ! (b mod 64), padChar, padChar]
     = Some [char_of ((a mod 64 * 262144 + b mod 64 * 4096) div 65536)]"
  by (simp add: decodeMap_encodeStd)

lemma Decode_padded1:
  "StdEncoding_Decode [encodeStd ! (a mod 64), encodeStd ! (b mod 64), encodeStd ! (c mod 64),
                       padChar]
     = Some [char_of ((a mod 64 * 262144 + b mod 64 * 4096 + c mod 64 * 64) div 65536),
             char_of ((a mod 64 * 262144 + b mod 64 * 4096 + c mod 64 * 64) div 256 mod 256)]"
  using encodeStd_not_pad [of c] by (simp add: decodeMap_encodeStd Let_def)

lemma Decode_full:
  "StdEncoding_Decode (encodeStd ! (a mod 64) # encodeStd ! (b mod 64) # encodeStd ! (c mod 64)
                       # encodeStd ! (d mod 64) # src)
     = map_option
         ((@) [char_of ((a mod 64 * 262144 + b mod 64 * 4096 + c mod 64 * 64 + d mod 64)
                        div 65536),
               char_of ((a mod 64 * 262144 + b mod 64 * 4096 + c mod 64 * 64 + d mod 64)
                        div 256 mod 256),
               char_of ((a mod 64 * 262144 + b mod 64 * 4096 + c mod 64 * 64 + d mod 64)
                        mod 256)])
         (StdEncoding_Decode src)"
  using encodeStd_not_pad [of c] encodeStd_not_pad [of d]
  by (simp add: decodeMap_encodeStd Let_def)

lemma Decode_Encode: "StdEncoding_Decode (StdEncoding_Encode src) = Some src"
proof (induction src rule: StdEncoding_Encode.induct)
  case 1
  show ?case by simp
next
  case (2 s0)
  have enc: "StdEncoding_Encode [s0]
      = [encodeStd ! ((of_char s0 * 65536) div 262144 mod 64),
         encodeStd ! ((of_char s0 * 65536) div 4096 mod 64), padChar, padChar]"
    by (simp only: StdEncoding_Encode.simps Let_def)
  show ?case unfolding enc Decode_padded2 quantum1 ..
next
  case (3 s0 s1)
  have enc: "StdEncoding_Encode [s0, s1]
      = [encodeStd ! ((of_char s0 * 65536 + of_char s1 * 256) div 262144 mod 64),
         encodeStd ! ((of_char s0 * 65536 + of_char s1 * 256) div 4096 mod 64),
         encodeStd ! ((of_char s0 * 65536 + of_char s1 * 256) div 64 mod 64), padChar]"
    by (simp only: StdEncoding_Encode.simps Let_def)
  show ?case unfolding enc Decode_padded1 quantum2 ..
next
  case (4 s0 s1 s2 src)
  have enc: "StdEncoding_Encode (s0 # s1 # s2 # src)
      = encodeStd ! ((of_char s0 * 65536 + of_char s1 * 256 + of_char s2) div 262144 mod 64)
        # encodeStd ! ((of_char s0 * 65536 + of_char s1 * 256 + of_char s2) div 4096 mod 64)
        # encodeStd ! ((of_char s0 * 65536 + of_char s1 * 256 + of_char s2) div 64 mod 64)
        # encodeStd ! ((of_char s0 * 65536 + of_char s1 * 256 + of_char s2) mod 64)
        # StdEncoding_Encode src"
    by (simp only: StdEncoding_Encode.simps Let_def append.simps)
  have ih: "StdEncoding_Decode (StdEncoding_Encode src) = Some src"
    by (rule "4.IH") (rule refl)
  show ?case unfolding enc Decode_full quantum3 ih by simp
qed

declare lineBreaker.simps [simp del]

lemma lines_of_line: "nl \<notin> set l \<Longrightarrow> lines_of (l @ nl # rest) = l # lines_of rest"
  by (induction l) auto

lemma lines_of_lineBreaker:
  "nl \<notin> set s \<Longrightarrow>
   \<exists>ls. lines_of (lineBreaker s @ rest) = ls @ lines_of rest \<and> concat ls = s
        \<and> (\<forall>l \<in> set ls. l \<noteq> [] \<and> set l \<subseteq> set s)"
proof (induction s rule: lineBreaker.induct)
  case (1 b)
  show ?case
  proof (cases "length b < pemLineLength")
    case True
    show ?thesis
    proof (cases "b = []")
      case True
      then show ?thesis by (simp add: lineBreaker.simps [of "[]"] pemLineLength_def)
    next
      case False
      have "lines_of (lineBreaker b @ rest) = [b] @ lines_of rest"
        using True False "1.prems" by (simp add: lineBreaker.simps [of b] lines_of_line)
      with False show ?thesis by (intro exI [of _ "[b]"]) simp
    qed
  next
    case False
    let ?h = "take pemLineLength b" and ?t = "drop pemLineLength b"
    have nt: "nl \<notin> set ?t" using "1.prems" by (meson in_set_dropD)
    have nh: "nl \<notin> set ?h" using "1.prems" by (meson in_set_takeD)
    from "1.IH" [OF False nt] obtain ls where
      ls: "lines_of (lineBreaker ?t @ rest) = ls @ lines_of rest" "concat ls = ?t"
          "\<forall>l \<in> set ls. l \<noteq> [] \<and> set l \<subseteq> set ?t" by blast
    have hne: "?h \<noteq> []" using False by (auto simp: pemLineLength_def)
    have "lines_of (lineBreaker b @ rest) = (?h # ls) @ lines_of rest"
      using False nh ls(1) by (simp add: lineBreaker.simps [of b] lines_of_line)
    moreover have "concat (?h # ls) = b" using ls(2) by simp
    moreover have "\<forall>l \<in> set (?h # ls). l \<noteq> [] \<and> set l \<subseteq> set b"
      using ls(3) hne by (auto dest: in_set_takeD in_set_dropD)
    ultimately show ?thesis by blast
  qed
qed

lemma set_StdEncoding_Encode: "set (StdEncoding_Encode src) \<subseteq> insert padChar (set encodeStd)"
proof (induction src rule: StdEncoding_Encode.induct)
  case (4 s0 s1 s2 src)
  have m: "encodeStd ! (k mod 64) \<in> set encodeStd" for k
    by (rule nth_mem) (simp add: length_encodeStd)
  have ih: "set (StdEncoding_Encode src) \<subseteq> insert padChar (set encodeStd)"
    by (rule "4.IH") (rule refl)
  show ?case using ih m by (auto simp: Let_def)
next
  case (3 s0 s1)
  have m: "encodeStd ! (k mod 64) \<in> set encodeStd" for k
    by (rule nth_mem) (simp add: length_encodeStd)
  show ?case using m by (simp add: Let_def)
next
  case (2 s0)
  have m: "encodeStd ! (k mod 64) \<in> set encodeStd" for k
    by (rule nth_mem) (simp add: length_encodeStd)
  show ?case using m by (simp add: Let_def)
qed simp


lemma nl_not_encodeStd: "nl \<notin> insert padChar (set encodeStd)"
  by (simp add: nl_def padChar_def encodeStd_def)

lemma dash_not_encodeStd: "CHR ''-'' \<notin> insert padChar (set encodeStd)"
  by (simp add: padChar_def encodeStd_def)

lemma takeWhile_body:
  assumes "\<forall>l \<in> set ls. l \<noteq> e"
  shows "takeWhile (\<lambda>l. l \<noteq> e) (ls @ e # after) = ls"
  using assms by (induction ls) auto

lemma pem_Decode_EncodeToMemory:
  assumes "nl \<notin> set (Type b)"
  shows "pem_Decode (pem_EncodeToMemory b) = Some b"
proof -
  let ?first = "pemStart @ Type b @ pemEndOfLine"
  let ?endLine = "pemEnd @ Type b @ pemEndOfLine"
  let ?text = "StdEncoding_Encode (Bytes b)"
  have nf: "nl \<notin> set ?first"
    using assms by (simp add: pemStart_def pemEndOfLine_def nl_def)
  have ne: "nl \<notin> set ?endLine"
    using assms by (simp add: pemEnd_def pemEndOfLine_def nl_def)
  have nt: "nl \<notin> set ?text"
    using set_StdEncoding_Encode [of "Bytes b"] nl_not_encodeStd by blast
  have dt: "CHR ''-'' \<notin> set ?text"
    using set_StdEncoding_Encode [of "Bytes b"] dash_not_encodeStd by blast
  from lines_of_lineBreaker [OF nt, of "?endLine @ [nl]"] obtain ls where
    ls: "lines_of (lineBreaker ?text @ ?endLine @ [nl]) = ls @ lines_of (?endLine @ [nl])"
        "concat ls = ?text" "\<forall>l \<in> set ls. l \<noteq> [] \<and> set l \<subseteq> set ?text" by blast
  have le: "lines_of (?endLine @ [nl]) = [?endLine, []]"
    using lines_of_line [OF ne, of "[]"] by simp
  have enc: "pem_EncodeToMemory b = ?first @ nl # (lineBreaker ?text @ ?endLine @ [nl])"
    by (simp add: pem_EncodeToMemory_def)
  have lines: "lines_of (pem_EncodeToMemory b) = ?first # ls @ [?endLine, []]"
    unfolding enc lines_of_line [OF nf] ls(1) le ..
  have body_ne: "\<forall>l \<in> set ls. l \<noteq> ?endLine"
  proof
    fix l assume "l \<in> set ls"
    with ls(3) have "l \<noteq> []" "set l \<subseteq> set ?text" by auto
    then have "hd l \<in> set ?text" by (meson hd_in_set subsetD)
    with dt have "hd l \<noteq> CHR ''-''" by metis
    moreover have "hd ?endLine = CHR ''-''" by (simp add: pemEnd_def)
    ultimately show "l \<noteq> ?endLine" by metis
  qed
  have tw: "takeWhile (\<lambda>l. l \<noteq> ?endLine) (ls @ [?endLine, []]) = ls"
    using takeWhile_body [OF body_ne, of "[[]]"] by simp
  have ty: "take (length ?first - length pemStart - length pemEndOfLine)
               (drop (length pemStart) ?first) = Type b"
    by simp
  have ok: "length pemStart + length pemEndOfLine \<le> length ?first
            \<and> take (length pemStart) ?first = pemStart
            \<and> drop (length ?first - length pemEndOfLine) ?first = pemEndOfLine"
    by simp
  show ?thesis
    unfolding pem_Decode_def lines
    by (simp only: list.case ok if_True ty Let_def tw ls(2) Decode_Encode) simp
qed

section \<open>Properties of remote trust extraction\<close>

lemma range_certs_first:
  "(\<forall>x \<in> set pre. \<not> IsCA x) \<Longrightarrow> IsCA c \<Longrightarrow> range_certs (pre @ c # post) = Some c"
  by (induction pre) auto

lemma range_certs_none: "(\<forall>x \<in> set certs. \<not> IsCA x) \<Longrightarrow> range_certs certs = None"
  by (induction certs) auto

text \<open>
  Claim C1. When the dial succeeds, \<open>getCACert\<close> returns the first certificate of the
  presented chain whose \<open>IsCA\<close> flag is set, and no error; when no certificate of the chain
  has the flag it returns no certificate and an error; when the dial fails it returns no
  certificate and the error of the dial.
\<close>

theorem getCACert_first_CA:
  "(tls_Dial E w ''tcp'' (domain @ '':443'') (tls_Config_zero\<lparr>InsecureSkipVerify := True\<rparr>)
      = Inr (pre @ c # post) \<longrightarrow> (\<forall>x \<in> set pre. \<not> IsCA x) \<longrightarrow> IsCA c \<longrightarrow>
      fst (getCACert E domain w) = (Some c, None))
   \<and> (tls_Dial E w ''tcp'' (domain @ '':443'') (tls_Config_zero\<lparr>InsecureSkipVerify := True\<rparr>)
      = Inr certs \<longrightarrow> (\<forall>x \<in> set certs. \<not> IsCA x) \<longrightarrow>
      (\<exists>msg. fst (getCACert E domain w) = (None, Some (Errorf msg))))
   \<and> (tls_Dial E w ''tcp'' (domain @ '':443'') (tls_Config_zero\<lparr>InsecureSkipVerify := True\<rparr>)
      = Inl err \<longrightarrow>
      fst (getCACert E domain w) = (None, Some err))"
  by (simp add: getCACert_def Let_def range_certs_first range_certs_none)

theorem getCACert_first_CA_witness:
  "fst (getCACert demo_env ''example.test'' world0) = (Some root_cert, None)
   \<and> (\<exists>msg. fst (getCACert demo_env ''plain.test'' world0) = (None, Some (Errorf msg)))
   \<and> fst (getCACert demo_env ''down.test'' world0)
       = (None, Some (LibError ''dial tcp: no such host''))"
proof -
  have d1: "tls_Dial demo_env world0 ''tcp'' (''example.test'' @ '':443'')
              (tls_Config_zero\<lparr>InsecureSkipVerify := True\<rparr>) = Inr ([leaf_cert] @ root_cert # [other_root_cert])"
    by (simp add: demo_env_def)
  have d2: "tls_Dial demo_env world0 ''tcp'' (''plain.test'' @ '':443'')
              (tls_Config_zero\<lparr>InsecureSkipVerify := True\<rparr>) = Inr [leaf_cert]"
    by (simp add: demo_env_def)
  have d3: "tls_Dial demo_env world0 ''tcp'' (''down.test'' @ '':443'')
              (tls_Config_zero\<lparr>InsecureSkipVerify := True\<rparr>) = Inl (LibError ''dial tcp: no such host'')"
    by (simp add: demo_env_def)
  have n1: "\<forall>x \<in> set [leaf_cert]. \<not> IsCA x" by (simp add: leaf_cert_def)
  have c1: "IsCA root_cert" by (simp add: root_cert_def)
  from getCACert_first_CA [of demo_env world0 "''example.test''" "[leaf_cert]" root_cert
      "[other_root_cert]" "[]" "LibError []"] d1 n1 c1
  have r1: "fst (getCACert demo_env ''example.test'' world0) = (Some root_cert, None)"
    by blast
  from getCACert_first_CA [of demo_env world0 "''plain.test''" "[]" root_cert
      "[]" "[leaf_cert]" "LibError []"] d2 n1
  have r2: "\<exists>msg. fst (getCACert demo_env ''plain.test'' world0) = (None, Some (Errorf msg))"
    by blast
  from getCACert_first_CA [of demo_env world0 "''down.test''" "[]" root_cert
      "[]" "[]" "LibError ''dial tcp: no such host''"] d3
  have r3: "fst (getCACert demo_env ''down.test'' world0)
              = (None, Some (LibError ''dial tcp: no such host''))"
    by blast
  from r1 r2 r3 show ?thesis by blast
qed

lemma getCACert_files: "files (snd (getCACert E domain w)) = files w"
  by (simp add: getCACert_def Let_def log_call_def split: sum.splits option.splits)

lemma DownloadCACert_after_extraction:
  "getCACert E domain w = ((Some cert, None), w1) \<Longrightarrow>
   DownloadCACert E outputPath domain w =
     (case ioutil_WriteFile E outputPath
             (pem_EncodeToMemory \<lparr>Type = ''CERTIFICATE'', Bytes = Raw cert\<rparr>) 420 w1 of
        (err, w2) \<Rightarrow> (Returns err, w2))"
  by (simp add: DownloadCACert_def Let_def)

lemma DownloadCACert_extraction_failed:
  "snd (fst (getCACert E domain w)) = Some err \<Longrightarrow>
   DownloadCACert E outputPath domain w = (Returns (Some err), snd (getCACert E domain w))"
  by (cases "getCACert E domain w") (auto simp: DownloadCACert_def split: option.splits)

lemma pem_Decode_CERTIFICATE:
  "pem_Decode (pem_EncodeToMemory \<lparr>Type = ''CERTIFICATE'', Bytes = raw\<rparr>)
     = Some \<lparr>Type = ''CERTIFICATE'', Bytes = raw\<rparr>"
  by (rule pem_Decode_EncodeToMemory) (simp add: nl_def)

text \<open>
  Claim C3. When \<open>getCACert\<close> has returned a certificate and the write succeeds,
  \<open>DownloadCACert\<close> returns no error and the file at \<open>outputPath\<close>, whatever was there
  before, holds the PEM encoding of a \<open>CERTIFICATE\<close> block of the certificate's raw
  bytes, which decodes back to exactly that block. When the write fails, the error of the
  write is returned. When \<open>getCACert\<close> fails, its error is returned, no file is changed
  and nothing is done after \<open>getCACert\<close>.
\<close>

theorem DownloadCACert_writes_PEM:
  "(fst (getCACert E domain w) = (Some cert, None) \<longrightarrow>
      os_write_error E (snd (getCACert E domain w)) outputPath = None \<longrightarrow>
      fst (DownloadCACert E outputPath domain w) = Returns None
      \<and> files (snd (DownloadCACert E outputPath domain w)) outputPath
          = Some (pem_EncodeToMemory \<lparr>Type = ''CERTIFICATE'', Bytes = Raw cert\<rparr>)
      \<and> Option.bind (files (snd (DownloadCACert E outputPath domain w)) outputPath) pem_Decode
          = Some \<lparr>Type = ''CERTIFICATE'', Bytes = Raw cert\<rparr>)
   \<and> (fst (getCACert E domain w) = (Some cert, None) \<longrightarrow>
      os_write_error E (snd (getCACert E domain w)) outputPath = Some (err, left) \<longrightarrow>
      fst (DownloadCACert E outputPath domain w) = Returns (Some err))
   \<and> (snd (fst (getCACert E domain w)) = Some err \<longrightarrow>
      fst (DownloadCACert E outputPath domain w) = Returns (Some err)
      \<and> files (snd (DownloadCACert E outputPath domain w)) = files w
      \<and> snd (DownloadCACert E outputPath domain w) = snd (getCACert E domain w))"
proof (intro conjI impI)
  assume g: "fst (getCACert E domain w) = (Some cert, None)"
    and ok: "os_write_error E (snd (getCACert E domain w)) outputPath = None"
  let ?w1 = "snd (getCACert E domain w)"
  have "getCACert E domain w = ((Some cert, None), ?w1)" using g by (simp add: prod_eq_iff)
  note d = DownloadCACert_after_extraction [OF this, of outputPath]
  show "fst (DownloadCACert E outputPath domain w) = Returns None"
    using ok by (simp add: d ioutil_WriteFile_def Let_def)
  show f: "files (snd (DownloadCACert E outputPath domain w)) outputPath
          = Some (pem_EncodeToMemory \<lparr>Type = ''CERTIFICATE'', Bytes = Raw cert\<rparr>)"
    using ok by (simp add: d ioutil_WriteFile_def Let_def)
  show "Option.bind (files (snd (DownloadCACert E outputPath domain w)) outputPath) pem_Decode
          = Some \<lparr>Type = ''CERTIFICATE'', Bytes = Raw cert\<rparr>"
    unfolding f by (simp add: pem_Decode_CERTIFICATE)
next
  assume g: "fst (getCACert E domain w) = (Some cert, None)"
    and bad: "os_write_error E (snd (getCACert E domain w)) outputPath = Some (err, left)"
  let ?w1 = "snd (getCACert E domain w)"
  have "getCACert E domain w = ((Some cert, None), ?w1)" using g by (simp add: prod_eq_iff)
  note d = DownloadCACert_after_extraction [OF this, of outputPath]
  show "fst (DownloadCACert E outputPath domain w) = Returns (Some err)"
    using bad by (simp add: d ioutil_WriteFile_def Let_def)
next
  assume e: "snd (fst (getCACert E domain w)) = Some err"
  note d = DownloadCACert_extraction_failed [OF e, of outputPath]
  show "fst (DownloadCACert E outputPath domain w) = Returns (Some err)" by (simp add: d)
  show "files (snd (DownloadCACert E outputPath domain w)) = files w"
    by (simp add: d getCACert_files)
  show "snd (DownloadCACert E outputPath domain w) = snd (getCACert E domain w)"
    by (simp add: d)
qed

theorem DownloadCACert_writes_PEM_witness:
  "fst (DownloadCACert demo_env ''/etc/ca.pem'' ''example.test'' demo_world) = Returns None
   \<and> Option.bind
         (files (snd (DownloadCACert demo_env ''/etc/ca.pem'' ''example.test'' demo_world))
            ''/etc/ca.pem'') pem_Decode
       = Some \<lparr>Type = ''CERTIFICATE'', Bytes = ''root-der''\<rparr>
   \<and> fst (DownloadCACert demo_env ''/etc/locked.pem'' ''example.test'' demo_world)
       = Returns (Some (LibError ''permission denied''))
   \<and> fst (DownloadCACert demo_env ''/etc/ca.pem'' ''plain.test'' demo_world)
       = Returns (Some (Errorf ''unable to get CA from server: cert does not exist''))
   \<and> files (snd (DownloadCACert demo_env ''/etc/ca.pem'' ''plain.test'' demo_world))
       = files demo_world"
proof -
  have g: "fst (getCACert demo_env ''example.test'' demo_world) = (Some root_cert, None)"
    by (simp add: getCACert_def demo_env_def Let_def leaf_cert_def root_cert_def)
  have ok: "os_write_error demo_env (snd (getCACert demo_env ''example.test'' demo_world))
              ''/etc/ca.pem'' = None"
    by (simp add: demo_env_def)
  have bad: "os_write_error demo_env (snd (getCACert demo_env ''example.test'' demo_world))
               ''/etc/locked.pem''
             = Some (LibError ''permission denied'', Some ''cert-pem'')"
    by (simp add: demo_env_def getCACert_files demo_world_def demo_files_def)
  have e: "snd (fst (getCACert demo_env ''plain.test'' demo_world))
             = Some (Errorf ''unable to get CA from server: cert does not exist'')"
    by (simp add: getCACert_def demo_env_def Let_def leaf_cert_def)
  have raw: "Raw root_cert = ''root-der''" by (simp add: root_cert_def)
  from DownloadCACert_writes_PEM [where E = demo_env and domain = "''example.test''"
      and w = demo_world and cert = root_cert and outputPath = "''/etc/ca.pem''"] g ok
  have "fst (DownloadCACert demo_env ''/etc/ca.pem'' ''example.test'' demo_world)
              = Returns None
            \<and> Option.bind
                 (files (snd (DownloadCACert demo_env ''/etc/ca.pem'' ''example.test''
                                demo_world)) ''/etc/ca.pem'') pem_Decode
               = Some \<lparr>Type = ''CERTIFICATE'', Bytes = Raw root_cert\<rparr>"
    by blast
  then have r1: "fst (DownloadCACert demo_env ''/etc/ca.pem'' ''example.test'' demo_world)
              = Returns None
            \<and> Option.bind
                 (files (snd (DownloadCACert demo_env ''/etc/ca.pem'' ''example.test''
                                demo_world)) ''/etc/ca.pem'') pem_Decode
               = Some \<lparr>Type = ''CERTIFICATE'', Bytes = ''root-der''\<rparr>"
    unfolding raw .
  from DownloadCACert_writes_PEM [where E = demo_env and domain = "''example.test''"
      and w = demo_world and cert = root_cert and outputPath = "''/etc/locked.pem''"
      and err = "LibError ''permission denied''" and left = "Some ''cert-pem''"] g bad
  have r2: "fst (DownloadCACert demo_env ''/etc/locked.pem'' ''example.test'' demo_world)
              = Returns (Some (LibError ''permission denied''))"
    by blast
  from DownloadCACert_writes_PEM [where E = demo_env and domain = "''plain.test''"
      and w = demo_world and outputPath = "''/etc/ca.pem''"
      and err = "Errorf ''unable to get CA from server: cert does not exist''"] e
  have r3: "fst (DownloadCACert demo_env ''/etc/ca.pem'' ''plain.test'' demo_world)
              = Returns (Some (Errorf ''unable to get CA from server: cert does not exist''))
            \<and> files (snd (DownloadCACert demo_env ''/etc/ca.pem'' ''plain.test'' demo_world))
               = files demo_world"
    by blast
  from r1 r2 r3 show ?thesis by blast
qed

section \<open>Errors are passed on without a second attempt\<close>

lemma ReadFile_world: "snd (ioutil_ReadFile E filename w) = log_call (Call_ReadFile filename) w"
  by (simp add: ioutil_ReadFile_def Let_def split: option.splits)

lemma ReadFile_result:
  "fst (ioutil_ReadFile E filename w) = r \<Longrightarrow>
   ioutil_ReadFile E filename w = (r, log_call (Call_ReadFile filename) w)"
  using ReadFile_world [of E filename w] by (simp add: prod_eq_iff)

text \<open>
  Claim C7. When a read, a parse or the dial fails, \<open>LoadTLSKeypair\<close>, \<open>ClientLoadCA\<close>,
  \<open>getCACert\<close> and \<open>DownloadCACert\<close> return the error at once: the world they leave
  behind is the one they started in with the calls up to the failed one logged, each once,
  and nothing else.
\<close>

theorem load_and_extraction_errors_propagate_at_once:
  "(fst (ioutil_ReadFile E certPath w) = Inl err \<longrightarrow>
      LoadTLSKeypair E certPath keyPath w
        = ((None, Some err), log_call (Call_ReadFile certPath) w))
   \<and> (fst (ioutil_ReadFile E certPath w) = Inr certPEMBlock \<longrightarrow>
      fst (ioutil_ReadFile E keyPath (log_call (Call_ReadFile certPath) w)) = Inl err \<longrightarrow>
      LoadTLSKeypair E certPath keyPath w
        = ((None, Some err),
           log_call (Call_ReadFile keyPath) (log_call (Call_ReadFile certPath) w)))
   \<and> (fst (ioutil_ReadFile E certPath w) = Inr certPEMBlock \<longrightarrow>
      fst (ioutil_ReadFile E keyPath (log_call (Call_ReadFile certPath) w)) = Inr keyPEMBlock \<longrightarrow>
      tls_X509KeyPair E certPEMBlock keyPEMBlock = Inl err \<longrightarrow>
      LoadTLSKeypair E certPath keyPath w
        = ((None, Some err),
           log_call (Call_ReadFile keyPath) (log_call (Call_ReadFile certPath) w)))
   \<and> (fst (ioutil_ReadFile E cacertPath w) = Inl err \<longrightarrow>
      ClientLoadCA E cacertPath w = ((None, Some err), log_call (Call_ReadFile cacertPath) w))
   \<and> (fst (ioutil_ReadFile E cacertPath w) = Inr pemServerCA \<longrightarrow>
      x509_certs_of_PEM E pemServerCA = [] \<longrightarrow>
      (\<exists>msg. ClientLoadCA E cacertPath w
               = ((None, Some (Errorf msg)), log_call (Call_ReadFile cacertPath) w)))
   \<and> (tls_Dial E w ''tcp'' (domain @ '':443'') (tls_Config_zero\<lparr>InsecureSkipVerify := True\<rparr>)
        = Inl err \<longrightarrow>
      getCACert E domain w
        = ((None, Some err),
           log_call (Call_tls_Dial ''tcp'' (domain @ '':443'')
                       (tls_Config_zero\<lparr>InsecureSkipVerify := True\<rparr>)) w)
      \<and> DownloadCACert E outputPath domain w
        = (Returns (Some err),
           log_call (Call_tls_Dial ''tcp'' (domain @ '':443'')
                       (tls_Config_zero\<lparr>InsecureSkipVerify := True\<rparr>)) w))"
proof (intro conjI impI)
  assume "fst (ioutil_ReadFile E certPath w) = Inl err"
  from ReadFile_result [OF this]
  show "LoadTLSKeypair E certPath keyPath w
          = ((None, Some err), log_call (Call_ReadFile certPath) w)"
    by (simp add: LoadTLSKeypair_def tls_LoadX509KeyPair_def)
next
  assume "fst (ioutil_ReadFile E certPath w) = Inr certPEMBlock"
    and "fst (ioutil_ReadFile E keyPath (log_call (Call_ReadFile certPath) w)) = Inl err"
  from ReadFile_result [OF this(1)] ReadFile_result [OF this(2)]
  show "LoadTLSKeypair E certPath keyPath w
          = ((None, Some err),
             log_call (Call_ReadFile keyPath) (log_call (Call_ReadFile certPath) w))"
    by (simp add: LoadTLSKeypair_def tls_LoadX509KeyPair_def)
next
  assume "fst (ioutil_ReadFile E certPath w) = Inr certPEMBlock"
    and "fst (ioutil_ReadFile E keyPath (log_call (Call_ReadFile certPath) w)) = Inr keyPEMBlock"
    and "tls_X509KeyPair E certPEMBlock keyPEMBlock = Inl err"
  from ReadFile_result [OF this(1)] ReadFile_result [OF this(2)] this(3)
  show "LoadTLSKeypair E certPath keyPath w
          = ((None, Some err),
             log_call (Call_ReadFile keyPath) (log_call (Call_ReadFile certPath) w))"
    by (simp add: LoadTLSKeypair_def tls_LoadX509KeyPair_def)
next
  assume "fst (ioutil_ReadFile E cacertPath w) = Inl err"
  from ReadFile_result [OF this]
  show "ClientLoadCA E cacertPath w = ((None, Some err), log_call (Call_ReadFile cacertPath) w)"
    by (simp add: ClientLoadCA_def)
next
  assume "fst (ioutil_ReadFile E cacertPath w) = Inr pemServerCA"
    and "x509_certs_of_PEM E pemServerCA = []"
  from ReadFile_result [OF this(1)] this(2)
  show "\<exists>msg. ClientLoadCA E cacertPath w
               = ((None, Some (Errorf msg)), log_call (Call_ReadFile cacertPath) w)"
    by (simp add: ClientLoadCA_def CertPool_AppendCertsFromPEM_def)
next
  assume d: "tls_Dial E w ''tcp'' (domain @ '':443'')
               (tls_Config_zero\<lparr>InsecureSkipVerify := True\<rparr>) = Inl err"
  then show g: "getCACert E domain w
        = ((None, Some err),
           log_call (Call_tls_Dial ''tcp'' (domain @ '':443'')
                       (tls_Config_zero\<lparr>InsecureSkipVerify := True\<rparr>)) w)"
    by (simp add: getCACert_def Let_def)
  show "DownloadCACert E outputPath domain w
        = (Returns (Some err),
           log_call (Call_tls_Dial ''tcp'' (domain @ '':443'')
                       (tls_Config_zero\<lparr>InsecureSkipVerify := True\<rparr>)) w)"
    by (simp add: DownloadCACert_def g)
qed

theorem load_and_extraction_errors_propagate_at_once_witness:
  "LoadTLSKeypair demo_env ''/etc/locked.pem'' ''/etc/server.key'' demo_world
     = ((None, Some (LibError ''permission denied'')),
        log_call (Call_ReadFile ''/etc/locked.pem'') demo_world)
   \<and> LoadTLSKeypair demo_env ''/etc/server.crt'' ''/etc/locked.pem'' demo_world
     = ((None, Some (LibError ''permission denied'')),
        log_call (Call_ReadFile ''/etc/locked.pem'')
          (log_call (Call_ReadFile ''/etc/server.crt'') demo_world))
   \<and> LoadTLSKeypair demo_env ''/etc/server.crt'' ''/etc/other.key'' demo_world
     = ((None, Some (LibError ''tls: private key does not match public key'')),
        log_call (Call_ReadFile ''/etc/other.key'')
          (log_call (Call_ReadFile ''/etc/server.crt'') demo_world))
   \<and> ClientLoadCA demo_env ''/etc/locked.pem'' demo_world
     = ((None, Some (LibError ''permission denied'')),
        log_call (Call_ReadFile ''/etc/locked.pem'') demo_world)
   \<and> (\<exists>msg. ClientLoadCA demo_env ''/etc/garbage.pem'' demo_world
              = ((None, Some (Errorf msg)),
                 log_call (Call_ReadFile ''/etc/garbage.pem'') demo_world))
   \<and> DownloadCACert demo_env ''/etc/ca.pem'' ''down.test'' demo_world
     = (Returns (Some (LibError ''dial tcp: no such host'')),
        log_call (Call_tls_Dial ''tcp'' ''down.test:443''
                    (tls_Config_zero\<lparr>InsecureSkipVerify := True\<rparr>)) demo_world)"
proof -
  have locked: "fst (ioutil_ReadFile demo_env ''/etc/locked.pem'' w)
                  = Inl (LibError ''permission denied'')" for w
    by (simp add: ioutil_ReadFile_def demo_env_def)
  have crt: "fst (ioutil_ReadFile demo_env ''/etc/server.crt'' demo_world) = Inr ''cert-pem''"
    by (simp add: ioutil_ReadFile_def demo_env_def demo_world_def demo_files_def)
  have key: "fst (ioutil_ReadFile demo_env ''/etc/other.key''
                    (log_call (Call_ReadFile ''/etc/server.crt'') demo_world))
               = Inr ''other-key-pem''"
    by (simp add: ioutil_ReadFile_def demo_env_def demo_world_def demo_files_def log_call_def)
  have pair: "tls_X509KeyPair demo_env ''cert-pem'' ''other-key-pem''
                = Inl (LibError ''tls: private key does not match public key'')"
    by (simp add: demo_env_def)
  have garbage: "fst (ioutil_ReadFile demo_env ''/etc/garbage.pem'' demo_world) = Inr ''garbage''"
    by (simp add: ioutil_ReadFile_def demo_env_def demo_world_def demo_files_def)
  have none: "x509_certs_of_PEM demo_env ''garbage'' = []"
    by (simp add: demo_env_def)
  have down: "tls_Dial demo_env demo_world ''tcp'' (''down.test'' @ '':443'')
                (tls_Config_zero\<lparr>InsecureSkipVerify := True\<rparr>)
              = Inl (LibError ''dial tcp: no such host'')"
    by (simp add: demo_env_def)
  note t = load_and_extraction_errors_propagate_at_once [where E = demo_env and w = demo_world]
  have r1: "LoadTLSKeypair demo_env ''/etc/locked.pem'' ''/etc/server.key'' demo_world
     = ((None, Some (LibError ''permission denied'')),
        log_call (Call_ReadFile ''/etc/locked.pem'') demo_world)"
    using t [where certPath = "''/etc/locked.pem''" and keyPath = "''/etc/server.key''"
        and err = "LibError ''permission denied''"] locked
    by blast
  have r2: "LoadTLSKeypair demo_env ''/etc/server.crt'' ''/etc/locked.pem'' demo_world
     = ((None, Some (LibError ''permission denied'')),
        log_call (Call_ReadFile ''/etc/locked.pem'')
          (log_call (Call_ReadFile ''/etc/server.crt'') demo_world))"
    using t [where certPath = "''/etc/server.crt''" and keyPath = "''/etc/locked.pem''"
        and err = "LibError ''permission denied''" and certPEMBlock = "''cert-pem''"]
      locked crt
    by blast
  have r3: "LoadTLSKeypair demo_env ''/etc/server.crt'' ''/etc/other.key'' demo_world
     = ((None, Some (LibError ''tls: private key does not match public key'')),
        log_call (Call_ReadFile ''/etc/other.key'')
          (log_call (Call_ReadFile ''/etc/server.crt'') demo_world))"
    using t [where certPath = "''/etc/server.crt''" and keyPath = "''/etc/other.key''"
        and err = "LibError ''tls: private key does not match public key''"
        and certPEMBlock = "''cert-pem''" and keyPEMBlock = "''other-key-pem''"]
      crt key pair
    by blast
  have r4: "ClientLoadCA demo_env ''/etc/locked.pem'' demo_world
     = ((None, Some (LibError ''permission denied'')),
        log_call (Call_ReadFile ''/etc/locked.pem'') demo_world)"
    using t [where cacertPath = "''/etc/locked.pem''"
        and err = "LibError ''permission denied''"] locked
    by blast
  have r5: "\<exists>msg. ClientLoadCA demo_env ''/etc/garbage.pem'' demo_world
              = ((None, Some (Errorf msg)),
                 log_call (Call_ReadFile ''/etc/garbage.pem'') demo_world)"
    using t [where cacertPath = "''/etc/garbage.pem''" and pemServerCA = "''garbage''"]
      garbage none
    by blast
  have r6: "DownloadCACert demo_env ''/etc/ca.pem'' ''down.test'' demo_world
     = (Returns (Some (LibError ''dial tcp: no such host'')),
        log_call (Call_tls_Dial ''tcp'' (''down.test'' @ '':443'')
                    (tls_Config_zero\<lparr>InsecureSkipVerify := True\<rparr>)) demo_world)"
    using t [where domain = "''down.test''" and outputPath = "''/etc/ca.pem''"
        and err = "LibError ''dial tcp: no such host''"] down
    by blast
  from r1 r2 r3 r4 r5 r6 show ?thesis by simp
qed

section \<open>Properties of automated certificate management\<close>

lemma GenerateTLSConfig_trace:
  "trace (snd (GenerateTLSConfig E staging email domains w)) =
     trace w @ [Call_ManageSync
       (certmagic_Default E
          \<lparr>Issuer := Some (NewACMEManager
              \<lparr>CA = (if staging then LetsEncryptStagingCA else LetsEncryptProductionCA),
               Email = email, Agreed = True\<rparr>),
           certCache := Some (NewCache \<lparr>GetConfigForCert = certmagic_Default_ref\<rparr>)\<rparr>)
       domains]"
  by (simp add: GenerateTLSConfig_def Let_def log_call_def certmagic_New_def
      split: option.splits)

text \<open>
  Claim C6. \<open>GenerateTLSConfig\<close> makes exactly one call of \<open>ManageSync\<close>, on the domains
  it was given, with a configuration whose issuer was built from the staging endpoint when
  \<open>staging\<close> is true and from the production endpoint when it is false, the two endpoints
  being different, and from the contact email it was given.
\<close>

theorem GenerateTLSConfig_issuer_by_staging:
  "(\<exists>magic. trace (snd (GenerateTLSConfig E True email domains w))
               = trace w @ [Call_ManageSync magic domains]
      \<and> Issuer magic = Some (NewACMEManager
            \<lparr>CA = LetsEncryptStagingCA, Email = email, Agreed = True\<rparr>))
   \<and> (\<exists>magic. trace (snd (GenerateTLSConfig E False email domains w))
               = trace w @ [Call_ManageSync magic domains]
      \<and> Issuer magic = Some (NewACMEManager
            \<lparr>CA = LetsEncryptProductionCA, Email = email, Agreed = True\<rparr>))
   \<and> LetsEncryptStagingCA \<noteq> LetsEncryptProductionCA"
  by (simp add: GenerateTLSConfig_trace LetsEncryptStagingCA_def LetsEncryptProductionCA_def)

section \<open>Properties of random byte slices\<close>


















section \<open>Properties of the timestamp converters\<close>

lemma sint_bounds64: "- (2 ^ 63) \<le> sint (n::64 word) \<and> sint n < 2 ^ 63"
  using sint_ge [of n] sint_lt [of n] by simp

lemma int32_of_small:
  assumes "0 \<le> sint (n::64 word)" and "sint n < 1000000000"
  shows "sint (scast (ucast n :: 32 word) :: 64 word) = sint n"
proof -
  have u: "uint n = sint n"
    using assms sint_bounds64 [of n] by (simp add: uint_sint take_bit_int_eq_self)
  have "sint (ucast n :: 32 word) = signed_take_bit 31 (uint n)"
    by (simp add: signed_ucast_eq)
  also have "\<dots> = sint n"
    using assms u by (simp add: signed_take_bit_int_eq_self)
  finally have "sint (ucast n :: 32 word) = sint n" .
  moreover have "sint (scast (ucast n :: 32 word) :: 64 word) = sint (ucast n :: 32 word)"
    by (rule sint_up_scast) (simp add: is_up)
  ultimately show ?thesis by simp
qed

lemma int64_div_nonneg:
  assumes "0 \<le> sint (n::64 word)"
  shows "sint (n - int64_div n 1000000000 * 1000000000) = sint n mod 1000000000"
proof -
  let ?q = "sint n div 1000000000"
  have b: "sint n < 2 ^ 63" using sint_bounds64 [of n] by simp
  have q0: "0 \<le> ?q" using assms by simp
  have qle: "?q * 1000000000 \<le> sint n"
    using assms by (simp add: minus_mod_eq_div_mult [symmetric])
  have qn: "?q \<le> sint n" using qle q0 by linarith
  have sd: "sint n sdiv 1000000000 = ?q"
    using assms by (simp add: signed_divide_int_def sgn_if)
  have d: "int64_div n 1000000000 = word_of_int ?q"
    by (simp add: int64_div_def sd)
  have sq: "sint (word_of_int ?q :: 64 word) = ?q"
    using q0 qn b by (simp add: sint_sbintrunc' signed_take_bit_int_eq_self)
  have sm: "sint (word_of_int ?q * 1000000000 :: 64 word) = ?q * 1000000000"
    using q0 qle b by (simp add: sint_word_mult sq signed_take_bit_int_eq_self)
  have "sint (n - word_of_int ?q * 1000000000) = signed_take_bit 63 (sint n - ?q * 1000000000)"
    by (simp add: sint_word_diff sm)
  also have "sint n - ?q * 1000000000 = sint n mod 1000000000"
    by (simp add: minus_div_mult_eq_mod)
  also have "signed_take_bit 63 (sint n mod 1000000000) = sint n mod 1000000000"
  proof (rule signed_take_bit_int_eq_self)
    have p: "(2::int) ^ 63 = 9223372036854775808" by simp
    have "0 \<le> sint n mod 1000000000" by simp
    then show "- (2 ^ 63) \<le> sint n mod 1000000000" unfolding p by linarith
    have "sint n mod 1000000000 < 1000000000" by simp
    then show "sint n mod 1000000000 < 2 ^ 63" unfolding p by linarith
  qed
  finally show ?thesis by (simp add: d)
qed

lemmas ts_defs =
  TsToUnixUTC_def UnixToUtcTS_def time_Unix_def Let_def timestamppb_New_def
  Timestamp_GetNanos_def time_UTC_def unixTime_def

lemma TsToUnixUTC_UnixToUtcTS_nonneg:
  assumes "0 \<le> sint (n::64 word)"
  shows "sint (TsToUnixUTC (UnixToUtcTS n)) = sint n mod 1000000000"
proof (cases "1000000000 \<le>s n")
  case True
  let ?r = "n - int64_div n 1000000000 * 1000000000"
  have r: "sint ?r = sint n mod 1000000000" using assms by (rule int64_div_nonneg)
  then have r0: "0 \<le> sint ?r" and r1: "sint ?r < 1000000000" by simp_all
  have "\<not> ?r <s 0" using r0 by (simp add: word_sless_alt)
  with True have "TsToUnixUTC (UnixToUtcTS n) = scast (ucast ?r :: 32 word)"
    by (simp add: ts_defs)
  then show ?thesis using int32_of_small [OF r0 r1] r by simp
next
  case False
  then have lt: "sint n < 1000000000" by (simp add: word_sle_eq)
  have "\<not> n <s 0" using assms by (simp add: word_sless_alt)
  with False have "TsToUnixUTC (UnixToUtcTS n) = scast (ucast n :: 32 word)"
    by (simp add: ts_defs)
  then show ?thesis using int32_of_small [OF assms lt] assms lt by simp
qed

lemma int32_sint_small:
  assumes "0 \<le> sint (n::64 word)" and "sint n < 1000000000"
  shows "sint (ucast n :: 32 word) = sint n"
proof -
  have u: "uint n = sint n"
    using assms sint_bounds64 [of n] by (simp add: uint_sint take_bit_int_eq_self)
  have "sint (ucast n :: 32 word) = signed_take_bit 31 (uint n)"
    by (simp add: signed_ucast_eq)
  also have "\<dots> = sint n"
    using assms u by (simp add: signed_take_bit_int_eq_self)
  finally show ?thesis .
qed

lemma int64_div_sint:
  assumes "0 \<le> sint (n::64 word)"
  shows "sint (int64_div n 1000000000) = sint n div 1000000000"
proof -
  let ?q = "sint n div 1000000000"
  have b: "sint n < 2 ^ 63" using sint_bounds64 [of n] by simp
  have q0: "0 \<le> ?q" using assms by simp
  have "?q * 1000000000 \<le> sint n"
    using assms by (simp add: minus_mod_eq_div_mult [symmetric])
  then have qn: "?q \<le> sint n" using q0 by linarith
  have sd: "sint n sdiv 1000000000 = ?q"
    using assms by (simp add: signed_divide_int_def sgn_if)
  have "sint (word_of_int ?q :: 64 word) = ?q"
    using q0 qn b by (simp add: sint_sbintrunc' signed_take_bit_int_eq_self)
  then show ?thesis by (simp add: int64_div_def sd)
qed

lemma UnixToUtcTS_nonneg:
  assumes "0 \<le> sint (n::64 word)"
  shows "\<exists>ts. UnixToUtcTS n = Some ts \<and> sint (Seconds ts) = sint n div 1000000000
              \<and> sint (Nanos ts) = sint n mod 1000000000"
proof (cases "1000000000 \<le>s n")
  case True
  let ?r = "n - int64_div n 1000000000 * 1000000000"
  have r: "sint ?r = sint n mod 1000000000" using assms by (rule int64_div_nonneg)
  then have r0: "0 \<le> sint ?r" and r1: "sint ?r < 1000000000" by simp_all
  have "\<not> ?r <s 0" using r0 by (simp add: word_sless_alt)
  with True have "UnixToUtcTS n
      = Some \<lparr>Seconds = int64_div n 1000000000, Nanos = ucast ?r\<rparr>"
    by (simp add: ts_defs)
  then show ?thesis
    using int32_sint_small [OF r0 r1] r int64_div_sint [OF assms] by simp
next
  case False
  then have lt: "sint n < 1000000000" by (simp add: word_sle_eq)
  have "\<not> n <s 0" using assms by (simp add: word_sless_alt)
  with False have "UnixToUtcTS n = Some \<lparr>Seconds = 0, Nanos = ucast n\<rparr>"
    by (simp add: ts_defs)
  then show ?thesis
    using int32_sint_small [OF assms lt] assms lt by simp
qed

text \<open>
  Claim C10. The two converters are not inverses of each other. For every non-negative
  \<open>int64\<close> value \<open>n\<close>, \<open>UnixToUtcTS\<close> reads \<open>n\<close> as nanoseconds and builds the
  timestamp of \<open>n div 1000000000\<close> seconds and \<open>n mod 1000000000\<close> nanoseconds;
  \<open>TsToUnixUTC\<close> returns the nanoseconds field alone, whatever the seconds field holds;
  so the round trip \<open>TsToUnixUTC (UnixToUtcTS n)\<close> is \<open>n mod 1000000000\<close>, and at
  \<open>n = 1000000000\<close> it is 0.
\<close>

theorem TsToUnixUTC_UnixToUtcTS_mod:
  "(0 \<le> sint (n::64 word) \<longrightarrow> sint (TsToUnixUTC (UnixToUtcTS n)) = sint n mod 1000000000)
   \<and> (0 \<le> sint n \<longrightarrow>
        (\<exists>ts. UnixToUtcTS n = Some ts \<and> sint (Seconds ts) = sint n div 1000000000
              \<and> sint (Nanos ts) = sint n mod 1000000000))
   \<and> TsToUnixUTC (Some ts) = scast (Nanos ts)
   \<and> TsToUnixUTC (UnixToUtcTS 1000000000) \<noteq> 1000000000"
proof -
  have "TsToUnixUTC (UnixToUtcTS 1000000000) = 0"
    by (simp add: ts_defs int64_div_def word_sle_eq word_sless_alt)
  then show ?thesis
    using TsToUnixUTC_UnixToUtcTS_nonneg [of n] UnixToUtcTS_nonneg [of n]
    by (simp add: TsToUnixUTC_def Timestamp_GetNanos_def)
qed

theorem TsToUnixUTC_UnixToUtcTS_mod_witness:
  "0 \<le> sint (1234567890123 :: 64 word)
   \<and> sint (TsToUnixUTC (UnixToUtcTS 1234567890123)) = 567890123
   \<and> (\<exists>ts. UnixToUtcTS 1234567890123 = Some ts \<and> sint (Seconds ts) = 1234
          \<and> sint (Nanos ts) = 567890123)"
proof -
  have a: "0 \<le> sint (1234567890123 :: 64 word)" by simp
  have b: "sint (1234567890123 :: 64 word) mod 1000000000 = 567890123" by simp
  have c: "sint (1234567890123 :: 64 word) div 1000000000 = 1234" by simp
  from TsToUnixUTC_UnixToUtcTS_mod [of 1234567890123 "\<lparr>Seconds = 0, Nanos = 0\<rparr>"] a
  have "sint (TsToUnixUTC (UnixToUtcTS 1234567890123))
          = sint (1234567890123 :: 64 word) mod 1000000000
        \<and> (\<exists>ts. UnixToUtcTS 1234567890123 = Some ts
               \<and> sint (Seconds ts) = sint (1234567890123 :: 64 word) div 1000000000
               \<and> sint (Nanos ts) = sint (1234567890123 :: 64 word) mod 1000000000)"
    by blast
  then show ?thesis unfolding b c using a by blast
qed

end
